theory Spec2Isabelle
  imports Main
begin

section \<open>The language components (app.models.language)\<close>

text \<open>
  Modelled from the spec: the module \<^verbatim>\<open>app.models.language\<close> is imported by
  \<^verbatim>\<open>app/ui/language.py\<close> but is not part of the sources. Its classes are plain value
  holders; the constructors below are the classes the widget module names, with the
  fields in the order the widget module passes them, plus the video-collection gap
  sentinel the spec lists. The type \<open>'n\<close> is the type of the number a
  \<^verbatim>\<open>NumberValue\<close> holds.
\<close>

datatype 'n lc =
    NumberGap
  | TextGap
  | VideoGap
  | VideoCollectionGap
  | NumberValue 'n
  | Add "'n lc" "'n lc"
  | Subtract "'n lc" "'n lc"
  | Multiply "'n lc" "'n lc"
  | TextValue string
  | VideoValue string
  | GetVariableExpression string
  | SetVariableStatement string "'n lc"
  | Sequence "'n command_sequence"
  | TextScene string string "'n lc" "'n command_sequence" "'n command_sequence" "'n lc"
  | VideoScene string string "'n lc" "'n command_sequence" "'n command_sequence" "'n lc" "'n lc"
  | YoutubeVideoGetTitle "'n lc"
  | YoutubeVideoGetRelated "'n lc"
  | YoutubeVideoCollectionRandom "'n lc"
  | Act "'n lc list"
and 'n command_sequence =
    CommandSequence "'n lc list"

text \<open>
  \<^verbatim>\<open>TextScene(title, comment, duration, pre_commands, post_commands, text)\<close> and
  \<^verbatim>\<open>VideoScene(title, comment, duration, pre_commands, post_commands, offset, source)\<close>.
  The command sequences of a scene are \<^verbatim>\<open>CommandSequence\<close> objects; \<open>Sequence\<close> is such
  an object where any component may stand, as when the factory is handed one.
\<close>

text \<open>
  Modelled from the spec: \<^verbatim>\<open>isinstance(child, language.Gap)\<close>. The class
  \<^verbatim>\<open>language.Gap\<close> is the base of the gap sentinels.
\<close>

fun isinstance_Gap :: "'n lc \<Rightarrow> bool" where
  "isinstance_Gap NumberGap = True"
| "isinstance_Gap TextGap = True"
| "isinstance_Gap VideoGap = True"
| "isinstance_Gap VideoCollectionGap = True"
| "isinstance_Gap (NumberValue v) = False"
| "isinstance_Gap (Add a b) = False"
| "isinstance_Gap (Subtract a b) = False"
| "isinstance_Gap (Multiply a b) = False"
| "isinstance_Gap (TextValue s) = False"
| "isinstance_Gap (VideoValue s) = False"
| "isinstance_Gap (GetVariableExpression n) = False"
| "isinstance_Gap (SetVariableStatement n v) = False"
| "isinstance_Gap (Sequence cs) = False"
| "isinstance_Gap (TextScene t c d p q x) = False"
| "isinstance_Gap (VideoScene t c d p q off src) = False"
| "isinstance_Gap (YoutubeVideoGetTitle v) = False"
| "isinstance_Gap (YoutubeVideoGetRelated v) = False"
| "isinstance_Gap (YoutubeVideoCollectionRandom v) = False"
| "isinstance_Gap (Act ss) = False"

text \<open>
  Modelled from the spec: the categories of the components, which the slots test with
  \<^verbatim>\<open>isinstance\<close>. The spec names the categories and says which components belong to
  which (section 3 and 4.4); a gap sentinel belongs to the category of its family.
\<close>

datatype category =
    NumberExpression
  | TextExpression
  | VideoExpression
  | VideoCollectionExpression
  | Statement
  | Scene

fun category_of :: "'n lc \<Rightarrow> category option" where
  "category_of NumberGap = Some NumberExpression"
| "category_of TextGap = Some TextExpression"
| "category_of VideoGap = Some VideoExpression"
| "category_of VideoCollectionGap = Some VideoCollectionExpression"
| "category_of (NumberValue v) = Some NumberExpression"
| "category_of (Add a b) = Some NumberExpression"
| "category_of (Subtract a b) = Some NumberExpression"
| "category_of (Multiply a b) = Some NumberExpression"
| "category_of (TextValue s) = Some TextExpression"
| "category_of (VideoValue s) = Some VideoExpression"
| "category_of (GetVariableExpression n) = Some Statement"
| "category_of (SetVariableStatement n v) = Some Statement"
| "category_of (Sequence cs) = None"
| "category_of (TextScene t c d p q x) = Some Scene"
| "category_of (VideoScene t c d p q off src) = Some Scene"
| "category_of (YoutubeVideoGetTitle v) = Some TextExpression"
| "category_of (YoutubeVideoGetRelated v) = Some VideoCollectionExpression"
| "category_of (YoutubeVideoCollectionRandom v) = Some VideoExpression"
| "category_of (Act ss) = None"

definition isinstance :: "'n lc \<Rightarrow> category \<Rightarrow> bool" where
  "isinstance component k = (category_of component = Some k)"

section \<open>Errors\<close>

text \<open>
  The exceptions of the module as values. \<open>RuntimeError\<close> carries the fixed part of its
  message, \<open>KeyError\<close> the key that was looked up, \<open>AttributeError\<close> the name of the
  missing method. \<open>ValueError\<close> is raised by \<^verbatim>\<open>float\<close>.
\<close>

datatype error =
    RuntimeError string
  | AssertionError
  | KeyError string
  | ValueError
  | AttributeError string

section \<open>The toolkit's primitive controls\<close>

text \<open>A \<^verbatim>\<open>QLineEdit\<close>: its text and its read-only flag.\<close>

record QLineEdit =
  le_text :: string
  le_readOnly :: bool

definition new_QLineEdit :: "string \<Rightarrow> QLineEdit" where
  "new_QLineEdit s = \<lparr>le_text = s, le_readOnly = False\<rparr>"

definition QLineEdit_setReadOnly :: "bool \<Rightarrow> QLineEdit \<Rightarrow> QLineEdit" where
  "QLineEdit_setReadOnly ro le = le\<lparr>le_readOnly := ro\<rparr>"

text \<open>
  A \<^verbatim>\<open>QComboBox\<close>: its items and the current index, \<open>-1\<close> when no item is current.
  Adding the first item makes it current; \<^verbatim>\<open>findText\<close> answers \<open>-1\<close> when no item has
  the text; \<^verbatim>\<open>currentText\<close> is empty when no item is current.
\<close>

record QComboBox =
  items :: "string list"
  currentIndex :: int

definition new_QComboBox :: QComboBox where
  "new_QComboBox = \<lparr>items = [], currentIndex = -1\<rparr>"

definition addItem :: "string \<Rightarrow> QComboBox \<Rightarrow> QComboBox" where
  "addItem s cb =
     \<lparr>items = items cb @ [s],
      currentIndex = (if items cb = [] then 0 else currentIndex cb)\<rparr>"

fun findText_from :: "int \<Rightarrow> string list \<Rightarrow> string \<Rightarrow> int" where
  "findText_from i [] s = -1"
| "findText_from i (x # xs) s = (if x = s then i else findText_from (i + 1) xs s)"

definition findText :: "QComboBox \<Rightarrow> string \<Rightarrow> int" where
  "findText cb s = findText_from 0 (items cb) s"

definition setCurrentIndex :: "int \<Rightarrow> QComboBox \<Rightarrow> QComboBox" where
  "setCurrentIndex i cb =
     cb\<lparr>currentIndex := (if 0 \<le> i \<and> i < int (length (items cb)) then i else -1)\<rparr>"

definition currentText :: "QComboBox \<Rightarrow> string" where
  "currentText cb =
     (if 0 \<le> currentIndex cb \<and> currentIndex cb < int (length (items cb))
      then items cb ! nat (currentIndex cb) else [])"

text \<open>Python's \<^verbatim>\<open>s.partition("\n")\<close>: the text before the first newline and the text after it.\<close>

definition newline :: char where
  "newline = CHR 0x0A"

definition partition_before :: "string \<Rightarrow> string" where
  "partition_before s = takeWhile (\<lambda>c. c \<noteq> newline) s"

definition partition_after :: "string \<Rightarrow> string" where
  "partition_after s = drop 1 (dropWhile (\<lambda>c. c \<noteq> newline) s)"

text \<open>
  A \<^verbatim>\<open>QVBoxLayout\<close>, as the sequence of its items. A widget item refers to the entry of
  the owner's list of children by its position there. \<^verbatim>\<open>indexOf\<close> answers \<open>-1\<close> for an
  item that is absent, and \<^verbatim>\<open>insertWidget\<close> appends when the index is negative or
  beyond the end.
\<close>

datatype layout_item = SpacingItem | StretchItem | GapItem | WidgetItem nat

fun indexOf_from :: "int \<Rightarrow> layout_item list \<Rightarrow> layout_item \<Rightarrow> int" where
  "indexOf_from i [] x = -1"
| "indexOf_from i (y # ys) x = (if y = x then i else indexOf_from (i + 1) ys x)"

definition indexOf :: "layout_item list \<Rightarrow> layout_item \<Rightarrow> int" where
  "indexOf l x = indexOf_from 0 l x"

definition insertWidget :: "int \<Rightarrow> layout_item \<Rightarrow> layout_item list \<Rightarrow> layout_item list" where
  "insertWidget i x l =
     (if i < 0 \<or> int (length l) < i then l @ [x]
      else take (nat i) l @ [x] @ drop (nat i) l)"

section \<open>The widgets\<close>

text \<open>
  The four slot classes derived from \<^verbatim>\<open>GapWidget\<close>, and the two derived from
  \<^verbatim>\<open>ListGapWidget\<close>.
\<close>

datatype gap_class = NumberGapWidget | TextGapWidget | VideoGapWidget | VideoCollectionGapWidget

datatype list_gap_class = CommandGapWidget | SceneGapWidget

record ListGapWidget =
  list_gap_class :: list_gap_class
  list_gap_readOnly :: bool

text \<open>
  A widget is the class it was created from together with its fields, in the order of
  the comments; a slot is its class, \<^verbatim>\<open>_child\<close> (\<open>None\<close> for Python's \<^verbatim>\<open>None\<close>) and
  \<^verbatim>\<open>_readOnly\<close>.
\<close>

datatype widget =
    NumberValueWidget QLineEdit
      \<comment> \<open>\<^verbatim>\<open>_number\<close>\<close>
  | NumberOperatorWidget gap QComboBox gap
      \<comment> \<open>\<^verbatim>\<open>_operand1\<close>, \<^verbatim>\<open>_operator\<close>, \<^verbatim>\<open>_operand2\<close>\<close>
  | TextValueWidget QLineEdit
      \<comment> \<open>\<^verbatim>\<open>_text\<close>\<close>
  | VideoValueWidget QLineEdit
      \<comment> \<open>\<^verbatim>\<open>_value\<close>\<close>
  | GetWidget QComboBox
      \<comment> \<open>\<^verbatim>\<open>_name\<close>\<close>
  | SetWidget QComboBox gap
      \<comment> \<open>\<^verbatim>\<open>_name\<close>, \<^verbatim>\<open>_value\<close>\<close>
  | SequenceWidget command_sequence_widget
      \<comment> \<open>a \<^verbatim>\<open>CommandSequenceWidget\<close> where any widget may stand\<close>
  | TextSceneWidget string command_sequence_widget command_sequence_widget gap gap
      \<comment> \<open>text of \<^verbatim>\<open>_comment\<close>, \<^verbatim>\<open>_preCommands\<close>, \<^verbatim>\<open>_postCommands\<close>, \<^verbatim>\<open>_text\<close>, \<^verbatim>\<open>_duration\<close>\<close>
  | VideoSceneWidget string command_sequence_widget command_sequence_widget gap gap gap
      \<comment> \<open>text of \<^verbatim>\<open>_comment\<close>, \<^verbatim>\<open>_preCommands\<close>, \<^verbatim>\<open>_postCommands\<close>, \<^verbatim>\<open>_source\<close>,
          \<^verbatim>\<open>_duration\<close>, \<^verbatim>\<open>_offset\<close>\<close>
  | YoutubeVideoGetTitleWidget gap
      \<comment> \<open>\<^verbatim>\<open>_video\<close>\<close>
  | YoutubeVideoGetRelatedWidget gap
      \<comment> \<open>\<^verbatim>\<open>_video\<close>\<close>
  | YoutubeVideoCollectionRandomWidget gap
      \<comment> \<open>\<^verbatim>\<open>_videoCollection\<close>\<close>
  | ActWidget "widget list" ListGapWidget "layout_item list"
      \<comment> \<open>\<^verbatim>\<open>_scenes\<close>, \<^verbatim>\<open>_gap\<close>, \<^verbatim>\<open>_layout\<close>\<close>
and command_sequence_widget =
    CommandSequenceWidget "widget list" ListGapWidget "layout_item list"
      \<comment> \<open>\<^verbatim>\<open>_commands\<close>, \<^verbatim>\<open>_gap\<close>, \<^verbatim>\<open>_layout\<close>\<close>
and gap =
    GapWidget gap_class "widget option" bool

text \<open>
  \<^verbatim>\<open>_postScriptChangeEvent\<close> posts a \<^verbatim>\<open>ScriptChangeEvent\<close> to the widget itself. The event
  is recorded with its receiver as it is at the moment of posting.
\<close>

datatype receiver = Slot gap | Node widget | Commands command_sequence_widget

datatype event = ScriptChangeEvent receiver

definition postScriptChangeEvent :: "receiver \<Rightarrow> event list" where
  "postScriptChangeEvent self = [ScriptChangeEvent self]"

text \<open>
  A constructor returns the new widget or raises, and in both cases has posted events.
  A method that changes a widget leaves the widget in some state whether it returns or
  raises.
\<close>

type_synonym 'a constructed = "(error + 'a) \<times> event list"

datatype 'a outcome = Returns 'a "event list" | Raises error 'a "event list"

fun state_of :: "'a outcome \<Rightarrow> 'a" where
  "state_of (Returns s evs) = s"
| "state_of (Raises e s evs) = s"

fun events_of :: "'a outcome \<Rightarrow> event list" where
  "events_of (Returns s evs) = evs"
| "events_of (Raises e s evs) = evs"

fun raised :: "'a outcome \<Rightarrow> error option" where
  "raised (Returns s evs) = None"
| "raised (Raises e s evs) = Some e"

section \<open>Reading the model off the widgets\<close>

definition VARIABLE_NAMES :: "string list" where
  "VARIABLE_NAMES = [''item'', ''curr_video'', ''curr_duration'', ''curr_offset'']"

text \<open>\<^verbatim>\<open>NumberOperatorWidget.OPERATORS\<close>.\<close>

definition OPERATORS :: "(string \<times> ('n lc \<Rightarrow> 'n lc \<Rightarrow> 'n lc)) list" where
  "OPERATORS = [(''+'', Add), (''-'', Subtract), (''/'', Multiply)]"

definition title :: "string \<Rightarrow> string" where
  "title comment_text = partition_before comment_text"

definition comment :: "string \<Rightarrow> string" where
  "comment comment_text = partition_after comment_text"

fun isFull :: "gap \<Rightarrow> bool" where
  "isFull (GapWidget k child ro) = (child \<noteq> None)"

text \<open>The sentinel each slot class returns from \<^verbatim>\<open>model\<close> when it is not full.\<close>

fun empty_model :: "gap_class \<Rightarrow> 'n lc" where
  "empty_model NumberGapWidget = NumberGap"
| "empty_model TextGapWidget = TextGap"
| "empty_model VideoGapWidget = VideoGap"
| "empty_model VideoCollectionGapWidget = VideoGap"

text \<open>
  Python 2's \<^verbatim>\<open>map(f, xs)\<close> calls \<open>f\<close> on the elements in order and the first
  exception ends it: \<open>first_raised\<close> of the results of the calls.
\<close>

fun first_raised :: "(error + 'a) list \<Rightarrow> error + 'a list" where
  "first_raised [] = Inr []"
| "first_raised (r # rs) =
     (case r of
        Inl e \<Rightarrow> Inl e
      | Inr v \<Rightarrow>
          (case first_raised rs of
             Inl e \<Rightarrow> Inl e
           | Inr vs \<Rightarrow> Inr (v # vs)))"

text \<open>
  \<^verbatim>\<open>model()\<close> of every widget class, with Python's \<^verbatim>\<open>float\<close> as the parameter \<open>float\<close>
  (\<open>None\<close> when it raises \<^verbatim>\<open>ValueError\<close>). Arguments are evaluated from left to right,
  the function of a call before its arguments, and the first exception ends the
  evaluation. In the two scene classes the accessors \<^verbatim>\<open>duration()\<close>,
  \<^verbatim>\<open>preCommands()\<close>, \<^verbatim>\<open>postCommands()\<close>, \<^verbatim>\<open>text()\<close>, \<^verbatim>\<open>offset()\<close> and \<^verbatim>\<open>source()\<close> are
  written out as the field each of them reads: \<^verbatim>\<open>offset()\<close> is
  \<^verbatim>\<open>self._duration.model()\<close>.
\<close>

primrec model :: "(string \<Rightarrow> 'n option) \<Rightarrow> widget \<Rightarrow> error + 'n lc"
  and model_sequence ::
    "(string \<Rightarrow> 'n option) \<Rightarrow> command_sequence_widget \<Rightarrow> error + 'n command_sequence"
  and model_gap :: "(string \<Rightarrow> 'n option) \<Rightarrow> gap \<Rightarrow> error + 'n lc"
where
  "model float (NumberValueWidget number) =
     (case float (le_text number) of
        None \<Rightarrow> Inl ValueError
      | Some v \<Rightarrow> Inr (NumberValue v))"
| "model float (NumberOperatorWidget operand1 operator operand2) =
     (case map_of OPERATORS (currentText operator) of
        None \<Rightarrow> Inl (KeyError (currentText operator))
      | Some constructor \<Rightarrow>
          (case model_gap float operand1 of
             Inl e \<Rightarrow> Inl e
           | Inr op1 \<Rightarrow>
               (case model_gap float operand2 of
                  Inl e \<Rightarrow> Inl e
                | Inr op2 \<Rightarrow> Inr (constructor op1 op2))))"
| "model float (TextValueWidget txt) = Inr (TextValue (le_text txt))"
| "model float (VideoValueWidget val) = Inr (VideoValue (le_text val))"
| "model float (GetWidget name) = Inr (GetVariableExpression (currentText name))"
| "model float (SetWidget name val) =
     (case model_gap float val of
        Inl e \<Rightarrow> Inl e
      | Inr v \<Rightarrow> Inr (SetVariableStatement (currentText name) v))"
| "model float (SequenceWidget commands) =
     (case model_sequence float commands of
        Inl e \<Rightarrow> Inl e
      | Inr cs \<Rightarrow> Inr (Sequence cs))"
| "model float (TextSceneWidget cm pre post txt dur) =
     (case model_gap float dur of
        Inl e \<Rightarrow> Inl e
      | Inr d \<Rightarrow>
     (case model_sequence float pre of
        Inl e \<Rightarrow> Inl e
      | Inr p \<Rightarrow>
     (case model_sequence float post of
        Inl e \<Rightarrow> Inl e
      | Inr q \<Rightarrow>
     (case model_gap float txt of
        Inl e \<Rightarrow> Inl e
      | Inr x \<Rightarrow> Inr (TextScene (title cm) (comment cm) d p q x)))))"
| "model float (VideoSceneWidget cm pre post src dur off) =
     (case model_gap float dur of
        Inl e \<Rightarrow> Inl e
      | Inr d \<Rightarrow>
     (case model_sequence float pre of
        Inl e \<Rightarrow> Inl e
      | Inr p \<Rightarrow>
     (case model_sequence float post of
        Inl e \<Rightarrow> Inl e
      | Inr q \<Rightarrow>
     (case model_gap float dur of
        Inl e \<Rightarrow> Inl e
      | Inr off' \<Rightarrow>
     (case model_gap float src of
        Inl e \<Rightarrow> Inl e
      | Inr s \<Rightarrow> Inr (VideoScene (title cm) (comment cm) d p q off' s))))))"
| "model float (YoutubeVideoGetTitleWidget video) =
     (case model_gap float video of
        Inl e \<Rightarrow> Inl e
      | Inr v \<Rightarrow> Inr (YoutubeVideoGetTitle v))"
| "model float (YoutubeVideoGetRelatedWidget video) =
     (case model_gap float video of
        Inl e \<Rightarrow> Inl e
      | Inr v \<Rightarrow> Inr (YoutubeVideoGetRelated v))"
| "model float (YoutubeVideoCollectionRandomWidget videoCollection) =
     (case model_gap float videoCollection of
        Inl e \<Rightarrow> Inl e
      | Inr v \<Rightarrow> Inr (YoutubeVideoCollectionRandom v))"
| "model float (ActWidget scenes g layout) =
     (case first_raised (map (model float) scenes) of
        Inl e \<Rightarrow> Inl e
      | Inr ss \<Rightarrow> Inr (Act ss))"
| "model_sequence float (CommandSequenceWidget commands g layout) =
     (case first_raised (map (model float) commands) of
        Inl e \<Rightarrow> Inl e
      | Inr cs \<Rightarrow> Inr (CommandSequence cs))"
| "model_gap float (GapWidget k child ro) =
     (case map_option (model float) child of
        Some r \<Rightarrow> r
      | None \<Rightarrow> Inr (empty_model k))"

section \<open>Building the widgets\<close>

text \<open>
  The keys of \<^verbatim>\<open>OPERATORS\<close>.
\<close>

definition OPERATORS_keys :: "string list" where
  "OPERATORS_keys = map fst (OPERATORS :: (string \<times> (unit lc \<Rightarrow> unit lc \<Rightarrow> unit lc)) list)"

text \<open>
  \<^verbatim>\<open>for x in xs: self.method(x)\<close>: the calls in order, each on the state the one before
  left, until the first that raises.
\<close>

fun for_each :: "('s \<Rightarrow> 'x \<Rightarrow> 's outcome) \<Rightarrow> 's \<Rightarrow> 'x list \<Rightarrow> 's outcome" where
  "for_each method self [] = Returns self []"
| "for_each method self (x # xs) =
     (case method self x of
        Raises e self' evs \<Rightarrow> Raises e self' evs
      | Returns self' evs \<Rightarrow>
          (case for_each method self' xs of
             Raises e self'' evs' \<Rightarrow> Raises e self'' (evs @ evs')
           | Returns self'' evs' \<Rightarrow> Returns self'' (evs @ evs')))"

text \<open>
  The constructors and methods that call \<^verbatim>\<open>LanguageWidgetFactory.build\<close> are first given
  with the outcome of that call as a parameter: where the source passes a component
  on to the factory, the function below takes \<open>built\<close>, what the factory does for
  that component. The factory itself, \<open>build\<close>, is defined after them by recursion on the
  component, and the methods of the source are then these functions at
  \<open>build\<close>.
\<close>

fun private_emptyGap :: "gap \<Rightarrow> gap" where
  "private_emptyGap (GapWidget k child ro) = GapWidget k None ro"

fun set_child :: "widget \<Rightarrow> gap \<Rightarrow> gap" where
  "set_child w (GapWidget k child ro) = GapWidget k (Some w) ro"

definition fillGap_built :: "gap \<Rightarrow> 'n lc \<Rightarrow> widget constructed \<Rightarrow> gap outcome" where
  "fillGap_built self child built =
     (let self1 = (if isFull self then private_emptyGap self else self) in
      if \<not> isinstance_Gap child then
        (case built of
           (Inl e, evs) \<Rightarrow> Raises e self1 evs
         | (Inr w, evs) \<Rightarrow>
             (let self2 = set_child w self1 in
              Returns self2 (evs @ postScriptChangeEvent (Slot self2))))
      else Returns self1 (postScriptChangeEvent (Slot self1)))"

text \<open>
  \<^verbatim>\<open>GapWidget.__init__\<close>, which the four slot classes call first; what they add after
  it is a label.
\<close>

definition GapWidget_init :: "gap_class \<Rightarrow> 'n lc \<Rightarrow> widget constructed \<Rightarrow> gap constructed" where
  "GapWidget_init k child built =
     (case fillGap_built (GapWidget k None False) child built of
        Raises e self evs \<Rightarrow> (Inl e, evs)
      | Returns self evs \<Rightarrow> (Inr self, evs))"

definition NumberValueWidget_init :: "string \<Rightarrow> widget constructed" where
  "NumberValueWidget_init number_value = (Inr (NumberValueWidget (new_QLineEdit number_value)), [])"

definition TextValueWidget_init :: "string \<Rightarrow> widget constructed" where
  "TextValueWidget_init text_value = (Inr (TextValueWidget (new_QLineEdit text_value)), [])"

definition VideoValueWidget_init :: "string \<Rightarrow> widget constructed" where
  "VideoValueWidget_init video_value = (Inr (VideoValueWidget (new_QLineEdit video_value)), [])"

definition NumberOperatorWidget_init ::
  "string \<Rightarrow> 'n lc \<Rightarrow> widget constructed \<Rightarrow> 'n lc \<Rightarrow> widget constructed \<Rightarrow> widget constructed"
where
  "NumberOperatorWidget_init operator operand1 built1 operand2 built2 =
     (if operator \<notin> set OPERATORS_keys then (Inl AssertionError, [])
      else
        (case GapWidget_init NumberGapWidget operand1 built1 of
           (Inl e, evs1) \<Rightarrow> (Inl e, evs1)
         | (Inr g1, evs1) \<Rightarrow>
             (case GapWidget_init NumberGapWidget operand2 built2 of
                (Inl e, evs2) \<Rightarrow> (Inl e, evs1 @ evs2)
              | (Inr g2, evs2) \<Rightarrow>
                  (Inr (NumberOperatorWidget g1
                     (addItem ''*'' (addItem ''-'' (addItem ''+'' new_QComboBox))) g2),
                   evs1 @ evs2))))"

text \<open>The combo box of the variable names, set to the name of the expression.\<close>

definition name_QComboBox :: "string \<Rightarrow> QComboBox" where
  "name_QComboBox name =
     (let cb = foldl (\<lambda>cb n. addItem n cb) new_QComboBox VARIABLE_NAMES in
      setCurrentIndex (findText cb name) cb)"

definition GetWidget_init :: "string \<Rightarrow> widget constructed" where
  "GetWidget_init name = (Inr (GetWidget (name_QComboBox name)), [])"

definition SetWidget_init :: "string \<Rightarrow> 'n lc \<Rightarrow> widget constructed \<Rightarrow> widget constructed" where
  "SetWidget_init name val built =
     (case GapWidget_init NumberGapWidget val built of
        (Inl e, evs) \<Rightarrow> (Inl e, evs)
      | (Inr g, evs) \<Rightarrow> (Inr (SetWidget (name_QComboBox name) g), evs))"

definition YoutubeVideoGetTitleWidget_init :: "'n lc \<Rightarrow> widget constructed \<Rightarrow> widget constructed" where
  "YoutubeVideoGetTitleWidget_init video built =
     (case GapWidget_init VideoGapWidget video built of
        (Inl e, evs) \<Rightarrow> (Inl e, evs)
      | (Inr g, evs) \<Rightarrow> (Inr (YoutubeVideoGetTitleWidget g), evs))"

definition YoutubeVideoGetRelatedWidget_init :: "'n lc \<Rightarrow> widget constructed \<Rightarrow> widget constructed" where
  "YoutubeVideoGetRelatedWidget_init video built =
     (case GapWidget_init VideoGapWidget video built of
        (Inl e, evs) \<Rightarrow> (Inl e, evs)
      | (Inr g, evs) \<Rightarrow> (Inr (YoutubeVideoGetRelatedWidget g), evs))"

definition YoutubeVideoCollectionRandomWidget_init ::
  "'n lc \<Rightarrow> widget constructed \<Rightarrow> widget constructed"
where
  "YoutubeVideoCollectionRandomWidget_init video_collection built =
     (case GapWidget_init VideoCollectionGapWidget video_collection built of
        (Inl e, evs) \<Rightarrow> (Inl e, evs)
      | (Inr g, evs) \<Rightarrow> (Inr (YoutubeVideoCollectionRandomWidget g), evs))"

text \<open>
  \<^verbatim>\<open>_addAtEnd\<close> of both list editors: the new widget, which will be entry \<open>n\<close> of the list
  of children, goes into the layout where the gap is.
\<close>

definition addAtEnd :: "nat \<Rightarrow> layout_item list \<Rightarrow> layout_item list" where
  "addAtEnd n layout = insertWidget (indexOf layout GapItem) (WidgetItem n) layout"

fun addCommand_built ::
  "command_sequence_widget \<Rightarrow> widget constructed \<Rightarrow> command_sequence_widget outcome"
where
  "addCommand_built (CommandSequenceWidget commands g layout) built =
     (case built of
        (Inl e, evs) \<Rightarrow> Raises e (CommandSequenceWidget commands g layout) evs
      | (Inr commandWidget, evs) \<Rightarrow>
          (let self' = CommandSequenceWidget (commands @ [commandWidget]) g
                         (addAtEnd (length commands) layout) in
           Returns self' (evs @ postScriptChangeEvent (Commands self'))))"

definition new_ListGapWidget :: "list_gap_class \<Rightarrow> ListGapWidget" where
  "new_ListGapWidget k = \<lparr>list_gap_class = k, list_gap_readOnly = False\<rparr>"

definition CommandSequenceWidget_built ::
  "widget constructed list \<Rightarrow> command_sequence_widget constructed"
where
  "CommandSequenceWidget_built builts =
     (case for_each addCommand_built
             (CommandSequenceWidget [] (new_ListGapWidget CommandGapWidget) [GapItem]) builts of
        Raises e self evs \<Rightarrow> (Inl e, evs)
      | Returns self evs \<Rightarrow> (Inr self, evs))"

definition addScene_built :: "widget \<Rightarrow> widget constructed \<Rightarrow> widget outcome" where
  "addScene_built self built =
     (case self of
        ActWidget scenes g layout \<Rightarrow>
          (case built of
             (Inl e, evs) \<Rightarrow> Raises e self evs
           | (Inr sceneWidget, evs) \<Rightarrow>
               (let self' = ActWidget (scenes @ [sceneWidget]) g
                              (addAtEnd (length scenes) layout) in
                Returns self' (evs @ postScriptChangeEvent (Node self'))))
      | _ \<Rightarrow> Raises (AttributeError ''addScene'') self [])"

definition addStretch :: "widget \<Rightarrow> widget" where
  "addStretch self =
     (case self of
        ActWidget scenes g layout \<Rightarrow> ActWidget scenes g (layout @ [StretchItem])
      | _ \<Rightarrow> self)"

definition ActWidget_built :: "widget constructed list \<Rightarrow> widget constructed" where
  "ActWidget_built builts =
     (case for_each addScene_built
             (ActWidget [] (new_ListGapWidget SceneGapWidget) [SpacingItem, GapItem]) builts of
        Raises e self evs \<Rightarrow> (Inl e, evs)
      | Returns self evs \<Rightarrow> (Inr (addStretch self), evs))"

text \<open>
  The comment box of a scene is a \<^verbatim>\<open>CommentWidget\<close>, derived from
  \<^verbatim>\<open>core.VerticallyGrowingPlainTextEdit\<close>, which is not part of the sources. Its text is
  taken to be the text it is given, the title, a newline and the comment. A plain text
  edit of the toolkit would turn a carriage return in that text into a line break;
  that is not modelled, and titles and comments are taken to have none.
\<close>

definition TextSceneWidget_init ::
  "string \<Rightarrow> string \<Rightarrow> 'n lc \<Rightarrow> widget constructed \<Rightarrow>
   command_sequence_widget constructed \<Rightarrow> command_sequence_widget constructed \<Rightarrow>
   'n lc \<Rightarrow> widget constructed \<Rightarrow> widget constructed"
where
  "TextSceneWidget_init scene_title scene_comment scene_duration built_duration
       built_pre built_post scene_text built_text =
     (case built_pre of
        (Inl e, evs1) \<Rightarrow> (Inl e, evs1)
      | (Inr pre, evs1) \<Rightarrow>
     (case built_post of
        (Inl e, evs2) \<Rightarrow> (Inl e, evs1 @ evs2)
      | (Inr post, evs2) \<Rightarrow>
     (case GapWidget_init TextGapWidget scene_text built_text of
        (Inl e, evs3) \<Rightarrow> (Inl e, evs1 @ evs2 @ evs3)
      | (Inr txt, evs3) \<Rightarrow>
     (case GapWidget_init NumberGapWidget scene_duration built_duration of
        (Inl e, evs4) \<Rightarrow> (Inl e, evs1 @ evs2 @ evs3 @ evs4)
      | (Inr dur, evs4) \<Rightarrow>
          (Inr (TextSceneWidget (scene_title @ [newline] @ scene_comment) pre post txt dur),
           evs1 @ evs2 @ evs3 @ evs4)))))"

definition VideoSceneWidget_init ::
  "string \<Rightarrow> string \<Rightarrow> 'n lc \<Rightarrow> widget constructed \<Rightarrow>
   command_sequence_widget constructed \<Rightarrow> command_sequence_widget constructed \<Rightarrow>
   'n lc \<Rightarrow> widget constructed \<Rightarrow> 'n lc \<Rightarrow> widget constructed \<Rightarrow> widget constructed"
where
  "VideoSceneWidget_init scene_title scene_comment scene_duration built_duration
       built_pre built_post scene_offset built_offset scene_source built_source =
     (case built_pre of
        (Inl e, evs1) \<Rightarrow> (Inl e, evs1)
      | (Inr pre, evs1) \<Rightarrow>
     (case built_post of
        (Inl e, evs2) \<Rightarrow> (Inl e, evs1 @ evs2)
      | (Inr post, evs2) \<Rightarrow>
     (case GapWidget_init VideoGapWidget scene_source built_source of
        (Inl e, evs3) \<Rightarrow> (Inl e, evs1 @ evs2 @ evs3)
      | (Inr src, evs3) \<Rightarrow>
     (case GapWidget_init NumberGapWidget scene_duration built_duration of
        (Inl e, evs4) \<Rightarrow> (Inl e, evs1 @ evs2 @ evs3 @ evs4)
      | (Inr dur, evs4) \<Rightarrow>
     (case GapWidget_init NumberGapWidget scene_offset built_offset of
        (Inl e, evs5) \<Rightarrow> (Inl e, evs1 @ evs2 @ evs3 @ evs4 @ evs5)
      | (Inr off, evs5) \<Rightarrow>
          (Inr (VideoSceneWidget (scene_title @ [newline] @ scene_comment) pre post src dur off),
           evs1 @ evs2 @ evs3 @ evs4 @ evs5))))))"

definition SequenceWidget_of :: "command_sequence_widget constructed \<Rightarrow> widget constructed" where
  "SequenceWidget_of built =
     (case built of
        (Inl e, evs) \<Rightarrow> (Inl e, evs)
      | (Inr commands, evs) \<Rightarrow> (Inr (SequenceWidget commands), evs))"

text \<open>
  The \<^verbatim>\<open>try\<close> of the factory: a \<^verbatim>\<open>KeyError\<close> from the lookup of the builder, or from
  the builder it calls, is raised again as a \<^verbatim>\<open>RuntimeError\<close>.
\<close>

definition except_KeyError :: "widget constructed \<Rightarrow> widget constructed" where
  "except_KeyError r =
     (case r of
        (Inl (KeyError k), evs) \<Rightarrow>
          (Inl (RuntimeError ''Attempted to build language component with no associated builder.''),
           evs)
      | _ \<Rightarrow> r)"

text \<open>
  \<^verbatim>\<open>LanguageWidgetFactory.build\<close>, by the class of the component: the entry of
  \<^verbatim>\<open>builders\<close> for that class applied to the component, or the \<^verbatim>\<open>KeyError\<close> of the
  lookup when the class has no entry, as the gap sentinels. The parameter \<open>text_of\<close> is
  the text a \<^verbatim>\<open>QLineEdit\<close> is given for the number of a \<^verbatim>\<open>NumberValue\<close>.
\<close>

primrec build :: "('n \<Rightarrow> string) \<Rightarrow> 'n lc \<Rightarrow> widget constructed"
  and CommandSequenceWidget_init ::
    "('n \<Rightarrow> string) \<Rightarrow> 'n command_sequence \<Rightarrow> command_sequence_widget constructed"
where
  "build text_of NumberGap = except_KeyError (Inl (KeyError ''NumberGap''), [])"
| "build text_of TextGap = except_KeyError (Inl (KeyError ''TextGap''), [])"
| "build text_of VideoGap = except_KeyError (Inl (KeyError ''VideoGap''), [])"
| "build text_of VideoCollectionGap = except_KeyError (Inl (KeyError ''VideoCollectionGap''), [])"
| "build text_of (NumberValue v) = except_KeyError (NumberValueWidget_init (text_of v))"
| "build text_of (Add op1 op2) =
     except_KeyError
       (NumberOperatorWidget_init ''+'' op1 (build text_of op1) op2 (build text_of op2))"
| "build text_of (Subtract op1 op2) =
     except_KeyError
       (NumberOperatorWidget_init ''-'' op1 (build text_of op1) op2 (build text_of op2))"
| "build text_of (Multiply op1 op2) =
     except_KeyError
       (NumberOperatorWidget_init ''*'' op1 (build text_of op1) op2 (build text_of op2))"
| "build text_of (TextValue s) = except_KeyError (TextValueWidget_init s)"
| "build text_of (VideoValue s) = except_KeyError (VideoValueWidget_init s)"
| "build text_of (GetVariableExpression name) = except_KeyError (GetWidget_init name)"
| "build text_of (SetVariableStatement name val) =
     except_KeyError (SetWidget_init name val (build text_of val))"
| "build text_of (Sequence commands) =
     except_KeyError (SequenceWidget_of (CommandSequenceWidget_init text_of commands))"
| "build text_of (TextScene t c duration pre post txt) =
     except_KeyError
       (TextSceneWidget_init t c duration (build text_of duration)
          (CommandSequenceWidget_init text_of pre) (CommandSequenceWidget_init text_of post)
          txt (build text_of txt))"
| "build text_of (VideoScene t c duration pre post off src) =
     except_KeyError
       (VideoSceneWidget_init t c duration (build text_of duration)
          (CommandSequenceWidget_init text_of pre) (CommandSequenceWidget_init text_of post)
          off (build text_of off) src (build text_of src))"
| "build text_of (YoutubeVideoGetTitle video) =
     except_KeyError (YoutubeVideoGetTitleWidget_init video (build text_of video))"
| "build text_of (YoutubeVideoGetRelated video) =
     except_KeyError (YoutubeVideoGetRelatedWidget_init video (build text_of video))"
| "build text_of (YoutubeVideoCollectionRandom video_collection) =
     except_KeyError
       (YoutubeVideoCollectionRandomWidget_init video_collection (build text_of video_collection))"
| "build text_of (Act scenes) = except_KeyError (ActWidget_built (map (build text_of) scenes))"
| "CommandSequenceWidget_init text_of (CommandSequence commands) =
     CommandSequenceWidget_built (map (build text_of) commands)"

section \<open>The methods that change a widget\<close>

definition fillGap :: "('n \<Rightarrow> string) \<Rightarrow> gap \<Rightarrow> 'n lc \<Rightarrow> gap outcome" where
  "fillGap text_of self child = fillGap_built self child (build text_of child)"

definition emptyGap :: "gap \<Rightarrow> gap outcome" where
  "emptyGap self =
     (if \<not> isFull self then Raises (RuntimeError ''Gap is currently not occupied.'') self []
      else
        (let self' = private_emptyGap self in
         Returns self' (postScriptChangeEvent (Slot self'))))"

definition addCommand ::
  "('n \<Rightarrow> string) \<Rightarrow> command_sequence_widget \<Rightarrow> 'n lc \<Rightarrow> command_sequence_widget outcome"
where
  "addCommand text_of self command = addCommand_built self (build text_of command)"

definition addScene :: "('n \<Rightarrow> string) \<Rightarrow> widget \<Rightarrow> 'n lc \<Rightarrow> widget outcome" where
  "addScene text_of self scene = addScene_built self (build text_of scene)"

text \<open>
  The accessors of \<^verbatim>\<open>VideoSceneWidget\<close> that \<^verbatim>\<open>model()\<close> calls for the offset and the
  source of the scene.
\<close>

definition offset :: "(string \<Rightarrow> 'n option) \<Rightarrow> widget \<Rightarrow> error + 'n lc" where
  "offset float self =
     (case self of
        VideoSceneWidget cm pre post src dur off \<Rightarrow> model_gap float dur
      | _ \<Rightarrow> Inl (AttributeError ''offset''))"

definition source :: "(string \<Rightarrow> 'n option) \<Rightarrow> widget \<Rightarrow> error + 'n lc" where
  "source float self =
     (case self of
        VideoSceneWidget cm pre post src dur off \<Rightarrow> model_gap float src
      | _ \<Rightarrow> Inl (AttributeError ''source''))"

text \<open>\<^verbatim>\<open>MiniVideoSceneWidget.model()\<close>, the example scene of the module.\<close>

definition MiniVideoSceneWidget_model :: "int lc" where
  "MiniVideoSceneWidget_model =
     VideoScene ''Example Video Scene''
       ''Displays Gangnan Style video for 10 seconds from offset 0 seconds.''
       (NumberValue 10) (CommandSequence []) (CommandSequence [])
       (NumberValue 0) (VideoValue ''http://www.youtube.com/watch?v=9bZkp7q19f0'')"

text \<open>\<^verbatim>\<open>MiniTextSceneWidget.model()\<close>.\<close>

definition MiniTextSceneWidget_model :: "int lc" where
  "MiniTextSceneWidget_model =
     TextScene ''Example Text Scene''
       ''Displays title of Gangnan Style video for 2 seconds.''
       (NumberValue 2) (CommandSequence []) (CommandSequence [])
       (YoutubeVideoGetTitle (VideoValue ''http://www.youtube.com/watch?v=9bZkp7q19f0''))"

section \<open>Drops and the read-only flag\<close>

fun isAcceptable :: "gap \<Rightarrow> 'n lc \<Rightarrow> bool" where
  "isAcceptable (GapWidget NumberGapWidget child ro) component =
     isinstance component NumberExpression"
| "isAcceptable (GapWidget TextGapWidget child ro) component =
     isinstance component TextExpression"
| "isAcceptable (GapWidget VideoGapWidget child ro) component =
     isinstance component VideoExpression"
| "isAcceptable (GapWidget VideoCollectionGapWidget child ro) component =
     isinstance component VideoCollectionExpression"

definition isAcceptable_list :: "ListGapWidget \<Rightarrow> 'n lc \<Rightarrow> bool" where
  "isAcceptable_list self component =
     (case list_gap_class self of
        CommandGapWidget \<Rightarrow> isinstance component Statement
      | SceneGapWidget \<Rightarrow> isinstance component Scene)"

fun gap_readOnly :: "gap \<Rightarrow> bool" where
  "gap_readOnly (GapWidget k child ro) = ro"

fun gap_child :: "gap \<Rightarrow> widget option" where
  "gap_child (GapWidget k child ro) = child"

text \<open>
  \<^verbatim>\<open>GapWidget.dragEnterEvent\<close>. The drag carries a component, or nothing in the format of
  the components (\<open>None\<close>); the result is whether the event was accepted.
\<close>

definition dragEnterEvent :: "gap \<Rightarrow> 'n lc option \<Rightarrow> bool" where
  "dragEnterEvent self mimeData =
     (if \<not> gap_readOnly self then
        (case mimeData of
           Some languageComponent \<Rightarrow>
             (if isAcceptable self languageComponent then True else False)
         | None \<Rightarrow> False)
      else False)"

definition dropEvent :: "('n \<Rightarrow> string) \<Rightarrow> gap \<Rightarrow> 'n lc \<Rightarrow> gap outcome" where
  "dropEvent text_of self languageComponent = fillGap text_of self languageComponent"

fun GapWidget_setReadOnly :: "bool \<Rightarrow> gap \<Rightarrow> gap" where
  "GapWidget_setReadOnly ro (GapWidget k child ro') = GapWidget k child ro"

text \<open>
  \<^verbatim>\<open>setReadOnly\<close> of the widget classes. The list editors and the two scene widgets
  define none, and neither do the toolkit classes they derive from.
\<close>

fun setReadOnly :: "bool \<Rightarrow> widget \<Rightarrow> widget outcome" where
  "setReadOnly ro (NumberValueWidget number) =
     Returns (NumberValueWidget (QLineEdit_setReadOnly ro number)) []"
| "setReadOnly ro (NumberOperatorWidget operand1 operator operand2) =
     Returns (NumberOperatorWidget (GapWidget_setReadOnly ro operand1) operator
                (GapWidget_setReadOnly ro operand2)) []"
| "setReadOnly ro (TextValueWidget txt) =
     Returns (TextValueWidget (QLineEdit_setReadOnly ro txt)) []"
| "setReadOnly ro (VideoValueWidget val) =
     Returns (VideoValueWidget (QLineEdit_setReadOnly ro val)) []"
| "setReadOnly ro (GetWidget name) = Returns (GetWidget name) []"
| "setReadOnly ro (SetWidget name val) =
     Returns (SetWidget name (GapWidget_setReadOnly ro val)) []"
| "setReadOnly ro (SequenceWidget commands) =
     Raises (AttributeError ''setReadOnly'') (SequenceWidget commands) []"
| "setReadOnly ro (TextSceneWidget cm pre post txt dur) =
     Raises (AttributeError ''setReadOnly'') (TextSceneWidget cm pre post txt dur) []"
| "setReadOnly ro (VideoSceneWidget cm pre post src dur off) =
     Raises (AttributeError ''setReadOnly'') (VideoSceneWidget cm pre post src dur off) []"
| "setReadOnly ro (YoutubeVideoGetTitleWidget video) =
     Returns (YoutubeVideoGetTitleWidget (GapWidget_setReadOnly ro video)) []"
| "setReadOnly ro (YoutubeVideoGetRelatedWidget video) =
     Returns (YoutubeVideoGetRelatedWidget (GapWidget_setReadOnly ro video)) []"
| "setReadOnly ro (YoutubeVideoCollectionRandomWidget videoCollection) =
     Returns (YoutubeVideoCollectionRandomWidget (GapWidget_setReadOnly ro videoCollection)) []"
| "setReadOnly ro (ActWidget scenes g layout) =
     Raises (AttributeError ''setReadOnly'') (ActWidget scenes g layout) []"

text \<open>The slots that are fields of a widget, and all the slots below a widget or a slot.\<close>

fun own_slots :: "widget \<Rightarrow> gap list" where
  "own_slots (NumberValueWidget number) = []"
| "own_slots (NumberOperatorWidget operand1 operator operand2) = [operand1, operand2]"
| "own_slots (TextValueWidget txt) = []"
| "own_slots (VideoValueWidget val) = []"
| "own_slots (GetWidget name) = []"
| "own_slots (SetWidget name val) = [val]"
| "own_slots (SequenceWidget commands) = []"
| "own_slots (TextSceneWidget cm pre post txt dur) = [txt, dur]"
| "own_slots (VideoSceneWidget cm pre post src dur off) = [src, dur, off]"
| "own_slots (YoutubeVideoGetTitleWidget video) = [video]"
| "own_slots (YoutubeVideoGetRelatedWidget video) = [video]"
| "own_slots (YoutubeVideoCollectionRandomWidget videoCollection) = [videoCollection]"
| "own_slots (ActWidget scenes g layout) = []"

primrec nested_slots :: "widget \<Rightarrow> gap list"
  and nested_slots_sequence :: "command_sequence_widget \<Rightarrow> gap list"
  and nested_slots_gap :: "gap \<Rightarrow> gap list"
where
  "nested_slots (NumberValueWidget number) = []"
| "nested_slots (NumberOperatorWidget operand1 operator operand2) =
     nested_slots_gap operand1 @ nested_slots_gap operand2"
| "nested_slots (TextValueWidget txt) = []"
| "nested_slots (VideoValueWidget val) = []"
| "nested_slots (GetWidget name) = []"
| "nested_slots (SetWidget name val) = nested_slots_gap val"
| "nested_slots (SequenceWidget commands) = nested_slots_sequence commands"
| "nested_slots (TextSceneWidget cm pre post txt dur) =
     nested_slots_sequence pre @ nested_slots_sequence post @
     nested_slots_gap txt @ nested_slots_gap dur"
| "nested_slots (VideoSceneWidget cm pre post src dur off) =
     nested_slots_sequence pre @ nested_slots_sequence post @
     nested_slots_gap src @ nested_slots_gap dur @ nested_slots_gap off"
| "nested_slots (YoutubeVideoGetTitleWidget video) = nested_slots_gap video"
| "nested_slots (YoutubeVideoGetRelatedWidget video) = nested_slots_gap video"
| "nested_slots (YoutubeVideoCollectionRandomWidget videoCollection) =
     nested_slots_gap videoCollection"
| "nested_slots (ActWidget scenes g layout) = concat (map nested_slots scenes)"
| "nested_slots_sequence (CommandSequenceWidget commands g layout) =
     concat (map nested_slots commands)"
| "nested_slots_gap (GapWidget k child ro) =
     GapWidget k child ro #
     (case map_option nested_slots child of None \<Rightarrow> [] | Some gs \<Rightarrow> gs)"

section \<open>Numbers written in decimal\<close>

text \<open>
  An instance of the two parameters, for the integers: the text of the line edit is the
  number in decimal, and \<open>float_decimal\<close> reads such a text (\<open>None\<close> for any other
  text). It is used where a theorem is evaluated at a component that holds numbers.
  Python's \<^verbatim>\<open>float\<close> reads more texts than these (a leading \<open>+\<close>, blanks, fractions,
  exponents) and rounds to a double; \<open>float_decimal\<close> stands for it only on the texts of
  digits with an optional \<open>-\<close> that the evaluated theorems give it, where the two agree
  up to Python's equality of \<open>10\<close> and \<open>10.0\<close>.
\<close>

definition digit_chars :: string where
  "digit_chars = ''0123456789''"

fun decimal_nat :: "nat \<Rightarrow> string" where
  "decimal_nat n =
     (if n < 10 then [digit_chars ! n]
      else decimal_nat (n div 10) @ [digit_chars ! (n mod 10)])"

declare decimal_nat.simps [simp del]

definition decimal :: "int \<Rightarrow> string" where
  "decimal i = (if i < 0 then CHR ''-'' # decimal_nat (nat (- i)) else decimal_nat (nat i))"

fun digit_value :: "char \<Rightarrow> nat option" where
  "digit_value c = (if c \<in> set digit_chars then Some (length (takeWhile (\<lambda>d. d \<noteq> c) digit_chars)) else None)"

fun digits_value :: "nat \<Rightarrow> string \<Rightarrow> nat option" where
  "digits_value acc [] = Some acc"
| "digits_value acc (c # cs) =
     (case digit_value c of
        None \<Rightarrow> None
      | Some d \<Rightarrow> digits_value (10 * acc + d) cs)"

definition float_decimal :: "string \<Rightarrow> int option" where
  "float_decimal s =
     (case s of
        [] \<Rightarrow> None
      | c # cs \<Rightarrow>
          (if c = CHR ''-'' then
             (if cs = [] then None else map_option (\<lambda>n. - int n) (digits_value 0 cs))
           else map_option int (digits_value 0 s)))"

section \<open>What the claims speak of\<close>

text \<open>\<^verbatim>\<open>build(x, parent).model()\<close>: the model of the widget the factory builds for \<open>x\<close>.\<close>

definition model_of_build ::
  "('n \<Rightarrow> string) \<Rightarrow> (string \<Rightarrow> 'n option) \<Rightarrow> 'n lc \<Rightarrow> error + 'n lc"
where
  "model_of_build text_of float x =
     (case fst (build text_of x) of
        Inl e \<Rightarrow> Inl e
      | Inr w \<Rightarrow> model float w)"

text \<open>
  The category each of the four slot flavors accepts, and the gap sentinel of that
  category, as the specification has them (section 4.2: one flavor per accepted
  category, number, text, video and video-collection).
\<close>

fun accepted_category :: "gap_class \<Rightarrow> category" where
  "accepted_category NumberGapWidget = NumberExpression"
| "accepted_category TextGapWidget = TextExpression"
| "accepted_category VideoGapWidget = VideoExpression"
| "accepted_category VideoCollectionGapWidget = VideoCollectionExpression"

fun gap_sentinel :: "gap_class \<Rightarrow> 'n lc" where
  "gap_sentinel NumberGapWidget = NumberGap"
| "gap_sentinel TextGapWidget = TextGap"
| "gap_sentinel VideoGapWidget = VideoGap"
| "gap_sentinel VideoCollectionGapWidget = VideoCollectionGap"

text \<open>
  The widget the factory returns for a component (of no meaning when the factory raises).
\<close>

definition built :: "('n \<Rightarrow> string) \<Rightarrow> 'n lc \<Rightarrow> widget" where
  "built text_of c = projr (fst (build text_of c))"

text \<open>
  Of the components appended one after the other, those whose append returns: the
  components before the first for which the factory raises.
\<close>

definition appended :: "('n \<Rightarrow> string) \<Rightarrow> 'n lc list \<Rightarrow> 'n lc list" where
  "appended text_of cs = takeWhile (\<lambda>c. \<not> isl (fst (build text_of c))) cs"

text \<open>The fields \<^verbatim>\<open>_commands\<close> and \<^verbatim>\<open>_scenes\<close> of the two list editors.\<close>

fun CommandSequenceWidget_commands :: "command_sequence_widget \<Rightarrow> widget list" where
  "CommandSequenceWidget_commands (CommandSequenceWidget commands g layout) = commands"

definition ActWidget_scenes :: "widget \<Rightarrow> widget list" where
  "ActWidget_scenes self = (case self of ActWidget scenes g layout \<Rightarrow> scenes | _ \<Rightarrow> [])"

section \<open>The round trip through the factory\<close>

text \<open>
  C1. The claim is that \<^verbatim>\<open>build(x, parent).model()\<close> is \<open>x\<close> again for every category
  with a registered builder. The code does not do that: for the example scene of
  \<^verbatim>\<open>MiniVideoSceneWidget\<close>, which plays for 10 seconds from offset 0, the model of the
  built widget has offset 10; a subtraction comes back as an addition, since the
  operator widget never selects the operator it was given; and a multiplication is not
  built at all.
\<close>

theorem C1_round_trip_fails:
  "model_of_build decimal float_decimal MiniVideoSceneWidget_model =
     Inr (VideoScene ''Example Video Scene''
            ''Displays Gangnan Style video for 10 seconds from offset 0 seconds.''
            (NumberValue 10) (CommandSequence []) (CommandSequence [])
            (NumberValue 10) (VideoValue ''http://www.youtube.com/watch?v=9bZkp7q19f0''))
   \<and> model_of_build decimal float_decimal (Subtract (NumberValue 5) (NumberValue 3)) =
       Inr (Add (NumberValue 5) (NumberValue 3))
   \<and> model_of_build decimal float_decimal (Multiply (NumberValue 2) (NumberValue 3)) =
       Inl AssertionError"
  by code_simp

section \<open>The model of an empty slot\<close>

text \<open>
  C2. The claim is that an empty slot of each of the four flavors has the gap sentinel of
  its own category as its model. The empty video-collection slot has the video gap as its
  model instead, a component the slot itself does not accept. The empty slots of the
  three other flavors have their own sentinel.
\<close>

theorem C2_empty_video_collection_slot:
  "model_gap float (GapWidget VideoCollectionGapWidget None ro) = Inr VideoGap
   \<and> (VideoGap :: 'n lc) \<noteq> gap_sentinel VideoCollectionGapWidget
   \<and> isAcceptable (GapWidget VideoCollectionGapWidget None ro) (VideoGap :: 'n lc) = False
   \<and> model_gap float (GapWidget NumberGapWidget None ro) = Inr NumberGap
   \<and> model_gap float (GapWidget TextGapWidget None ro) = Inr TextGap
   \<and> model_gap float (GapWidget VideoGapWidget None ro) = Inr VideoGap"
  by (simp add: isinstance_def)

section \<open>The arithmetic operator widget\<close>

text \<open>
  C4. The claim is that the model of an operator widget is the constructor of the
  selected operator applied to the models of the two operand slots, whichever of the
  offered operators is selected. With the operands 2 and 3 that holds when \<open>+\<close> is
  selected, as the widget is when built; once the third choice \<open>*\<close> is selected,
  \<^verbatim>\<open>model()\<close> raises \<^verbatim>\<open>KeyError\<close>.
\<close>

theorem C4_selected_times_raises:
  "fst (build decimal (Add (NumberValue 2) (NumberValue 3))) =
     Inr (NumberOperatorWidget
            (GapWidget NumberGapWidget
               (Some (NumberValueWidget \<lparr>le_text = ''2'', le_readOnly = False\<rparr>)) False)
            \<lparr>items = [''+'', ''-'', ''*''], currentIndex = 0\<rparr>
            (GapWidget NumberGapWidget
               (Some (NumberValueWidget \<lparr>le_text = ''3'', le_readOnly = False\<rparr>)) False))
   \<and> model float_decimal
         (NumberOperatorWidget
            (GapWidget NumberGapWidget
               (Some (NumberValueWidget \<lparr>le_text = ''2'', le_readOnly = False\<rparr>)) False)
            \<lparr>items = [''+'', ''-'', ''*''], currentIndex = 0\<rparr>
            (GapWidget NumberGapWidget
               (Some (NumberValueWidget \<lparr>le_text = ''3'', le_readOnly = False\<rparr>)) False)) =
       Inr (Add (NumberValue 2) (NumberValue 3))
   \<and> model float_decimal
         (NumberOperatorWidget
            (GapWidget NumberGapWidget
               (Some (NumberValueWidget \<lparr>le_text = ''2'', le_readOnly = False\<rparr>)) False)
            (setCurrentIndex 2 \<lparr>items = [''+'', ''-'', ''*''], currentIndex = 0\<rparr>)
            (GapWidget NumberGapWidget
               (Some (NumberValueWidget \<lparr>le_text = ''3'', le_readOnly = False\<rparr>)) False)) =
       Inl (KeyError ''*'')"
  by code_simp

section \<open>Read-only widgets\<close>

lemma dragEnterEvent_readOnly:
  "dragEnterEvent (GapWidget_setReadOnly True g) mimeData = False"
  by (cases g) (simp add: dragEnterEvent_def)

text \<open>
  C3. The claim is that \<^verbatim>\<open>setReadOnly(True)\<close> reaches every nested child, the occupant
  of a slot included, and that every slot below then rejects every drop. That fails: a
  number slot that holds an operator widget is made read-only, and the operand slot of
  that widget, which is below the slot, still accepts a number that is dragged over it.
\<close>

theorem C3_counterexample:
  "GapWidget NumberGapWidget None False
     \<in> set (nested_slots_gap
              (GapWidget_setReadOnly True
                 (GapWidget NumberGapWidget
                    (Some (NumberOperatorWidget (GapWidget NumberGapWidget None False)
                             \<lparr>items = [''+'', ''-'', ''*''], currentIndex = 0\<rparr>
                             (GapWidget NumberGapWidget None False)))
                    False)))
   \<and> dragEnterEvent (GapWidget NumberGapWidget None False) (Some (NumberValue (1::int))) = True"
  by (simp add: dragEnterEvent_def isinstance_def)

text \<open>
  C3, as amended. \<^verbatim>\<open>setReadOnly(True)\<close> on a slot sets the flag of that slot, which then
  rejects every drag that enters it, and leaves the occupant as it is. On a value
  widget \<^verbatim>\<open>setReadOnly\<close> sets the read-only flag of the line edit. On the operator
  widget, the set widget and the three YouTube widgets it returns, without posting an
  event, the widget with the flag of each slot that is a field of it set, so that
  after \<^verbatim>\<open>setReadOnly(True)\<close> each of those slots rejects every drag; on the get widget
  it returns and changes nothing. The command sequence, scene and act widgets define
  no \<^verbatim>\<open>setReadOnly\<close>, and the call raises \<^verbatim>\<open>AttributeError\<close>.
\<close>

theorem C3_setReadOnly:
  "dragEnterEvent (GapWidget_setReadOnly True g) mimeData = False
   \<and> gap_child (GapWidget_setReadOnly ro g) = gap_child g
   \<and> setReadOnly ro (NumberValueWidget edit) =
       Returns (NumberValueWidget (edit\<lparr>le_readOnly := ro\<rparr>)) []
   \<and> setReadOnly ro (TextValueWidget edit) =
       Returns (TextValueWidget (edit\<lparr>le_readOnly := ro\<rparr>)) []
   \<and> setReadOnly ro (VideoValueWidget edit) =
       Returns (VideoValueWidget (edit\<lparr>le_readOnly := ro\<rparr>)) []
   \<and> (setReadOnly True w = Returns w' evs \<longrightarrow>
        evs = [] \<and> (\<forall>s \<in> set (own_slots w'). dragEnterEvent s mimeData = False))
   \<and> GapWidget_setReadOnly ro (GapWidget k child ro') = GapWidget k child ro
   \<and> setReadOnly ro (NumberOperatorWidget operand1 operator operand2) =
       Returns (NumberOperatorWidget (GapWidget_setReadOnly ro operand1) operator
                  (GapWidget_setReadOnly ro operand2)) []
   \<and> setReadOnly ro (GetWidget name) = Returns (GetWidget name) []
   \<and> setReadOnly ro (SetWidget name val) =
       Returns (SetWidget name (GapWidget_setReadOnly ro val)) []
   \<and> setReadOnly ro (YoutubeVideoGetTitleWidget video) =
       Returns (YoutubeVideoGetTitleWidget (GapWidget_setReadOnly ro video)) []
   \<and> setReadOnly ro (YoutubeVideoGetRelatedWidget video) =
       Returns (YoutubeVideoGetRelatedWidget (GapWidget_setReadOnly ro video)) []
   \<and> setReadOnly ro (YoutubeVideoCollectionRandomWidget video) =
       Returns (YoutubeVideoCollectionRandomWidget (GapWidget_setReadOnly ro video)) []
   \<and> setReadOnly ro (SequenceWidget commands) =
       Raises (AttributeError ''setReadOnly'') (SequenceWidget commands) []
   \<and> setReadOnly ro (TextSceneWidget cm pre post txt dur) =
       Raises (AttributeError ''setReadOnly'') (TextSceneWidget cm pre post txt dur) []
   \<and> setReadOnly ro (VideoSceneWidget cm pre post src dur off) =
       Raises (AttributeError ''setReadOnly'') (VideoSceneWidget cm pre post src dur off) []
   \<and> setReadOnly ro (ActWidget scenes lg layout) =
       Raises (AttributeError ''setReadOnly'') (ActWidget scenes lg layout) []"
proof (intro conjI impI)
  show "dragEnterEvent (GapWidget_setReadOnly True g) mimeData = False"
    by (rule dragEnterEvent_readOnly)
  show "gap_child (GapWidget_setReadOnly ro g) = gap_child g"
    by (cases g) simp
  show "setReadOnly ro (NumberValueWidget edit) =
       Returns (NumberValueWidget (edit\<lparr>le_readOnly := ro\<rparr>)) []"
    by (simp add: QLineEdit_setReadOnly_def)
  show "setReadOnly ro (TextValueWidget edit) =
       Returns (TextValueWidget (edit\<lparr>le_readOnly := ro\<rparr>)) []"
    by (simp add: QLineEdit_setReadOnly_def)
  show "setReadOnly ro (VideoValueWidget edit) =
       Returns (VideoValueWidget (edit\<lparr>le_readOnly := ro\<rparr>)) []"
    by (simp add: QLineEdit_setReadOnly_def)
  show "GapWidget_setReadOnly ro (GapWidget k child ro') = GapWidget k child ro"
    by simp
  show "setReadOnly ro (NumberOperatorWidget operand1 operator operand2) =
       Returns (NumberOperatorWidget (GapWidget_setReadOnly ro operand1) operator
                  (GapWidget_setReadOnly ro operand2)) []"
    by simp
  show "setReadOnly ro (GetWidget name) = Returns (GetWidget name) []"
    by simp
  show "setReadOnly ro (SetWidget name val) =
       Returns (SetWidget name (GapWidget_setReadOnly ro val)) []"
    by simp
  show "setReadOnly ro (YoutubeVideoGetTitleWidget video) =
       Returns (YoutubeVideoGetTitleWidget (GapWidget_setReadOnly ro video)) []"
    by simp
  show "setReadOnly ro (YoutubeVideoGetRelatedWidget video) =
       Returns (YoutubeVideoGetRelatedWidget (GapWidget_setReadOnly ro video)) []"
    by simp
  show "setReadOnly ro (YoutubeVideoCollectionRandomWidget video) =
       Returns (YoutubeVideoCollectionRandomWidget (GapWidget_setReadOnly ro video)) []"
    by simp
  show "setReadOnly ro (SequenceWidget commands) =
       Raises (AttributeError ''setReadOnly'') (SequenceWidget commands) []"
    by simp
  show "setReadOnly ro (TextSceneWidget cm pre post txt dur) =
       Raises (AttributeError ''setReadOnly'') (TextSceneWidget cm pre post txt dur) []"
    by simp
  show "setReadOnly ro (VideoSceneWidget cm pre post src dur off) =
       Raises (AttributeError ''setReadOnly'') (VideoSceneWidget cm pre post src dur off) []"
    by simp
  show "setReadOnly ro (ActWidget scenes lg layout) =
       Raises (AttributeError ''setReadOnly'') (ActWidget scenes lg layout) []"
    by simp
next
  assume r: "setReadOnly True w = Returns w' evs"
  then show "evs = []"
    by (cases w) auto
  from r show "\<forall>s \<in> set (own_slots w'). dragEnterEvent s mimeData = False"
    by (cases w) (auto simp: dragEnterEvent_readOnly)
qed

theorem C3_setReadOnly_witness:
  "setReadOnly True
     (SetWidget (name_QComboBox ''item'') (GapWidget NumberGapWidget None False)) =
     Returns (SetWidget (name_QComboBox ''item'') (GapWidget NumberGapWidget None True)) []
   \<and> dragEnterEvent (GapWidget NumberGapWidget None True) (Some (NumberValue (1::int))) = False"
proof -
  have r: "setReadOnly True
     (SetWidget (name_QComboBox ''item'') (GapWidget NumberGapWidget None False)) =
     Returns (SetWidget (name_QComboBox ''item'') (GapWidget NumberGapWidget None True)) []"
    by simp
  note C3_setReadOnly [of _ "Some (NumberValue (1::int))" _ _
        "SetWidget (name_QComboBox ''item'') (GapWidget NumberGapWidget None False)"
        "SetWidget (name_QComboBox ''item'') (GapWidget NumberGapWidget None True)" "[]",
        THEN conjunct2, THEN conjunct2, THEN conjunct2, THEN conjunct2, THEN conjunct2,
        THEN conjunct1, THEN mp, OF r, THEN conjunct2]
  then have "\<forall>s \<in> set (own_slots
                    (SetWidget (name_QComboBox ''item'') (GapWidget NumberGapWidget None True))).
         dragEnterEvent s (Some (NumberValue (1::int))) = False"
    by blast
  then have "dragEnterEvent (GapWidget NumberGapWidget None True)
      (Some (NumberValue (1::int))) = False"
    by simp
  with r show ?thesis by (intro conjI)
qed

section \<open>Filling a slot\<close>

lemma fillGap_outcome:
  "fillGap text_of (GapWidget k child ro) c =
     (if isinstance_Gap c then
        Returns (GapWidget k None ro) [ScriptChangeEvent (Slot (GapWidget k None ro))]
      else
        (case build text_of c of
           (Inl e, evs) \<Rightarrow> Raises e (GapWidget k None ro) evs
         | (Inr w, evs) \<Rightarrow>
             Returns (GapWidget k (Some w) ro)
               (evs @ [ScriptChangeEvent (Slot (GapWidget k (Some w) ro))])))
   \<and> fillGap text_of (GapWidget k child ro) c = fillGap text_of (GapWidget k child' ro) c
   \<and> (fillGap text_of (GapWidget k child ro) c = Returns self' evs' \<longrightarrow>
        evs' \<noteq> [] \<and> last evs' = ScriptChangeEvent (Slot self')
        \<and> model_gap float self' =
            (if isinstance_Gap c then Inr (empty_model k) else model_of_build text_of float c))"
  by (cases child; cases child')
     (auto simp: fillGap_def fillGap_built_def postScriptChangeEvent_def Let_def
           model_of_build_def
           split: prod.splits sum.splits)

text \<open>
  C5. The claim is that \<^verbatim>\<open>fillGap\<close>, for a component that is no gap sentinel, installs
  the widget the factory builds for it and always ends by posting the event. The code
  does that whenever the factory returns a widget (\<open>fillGap_outcome\<close>), but not for a
  \<^verbatim>\<open>Multiply\<close>, which is no gap sentinel and which a number slot accepts: the factory
  raises \<^verbatim>\<open>AssertionError\<close>, by then the slot has lost the child it had, nothing is
  installed in it and no event is posted.
\<close>

theorem C5_fillGap_multiply:
  "fillGap text_of (GapWidget k (Some w) ro) (Multiply a b) =
     Raises AssertionError (GapWidget k None ro) []
   \<and> isinstance_Gap (Multiply a b) = False
   \<and> isAcceptable (GapWidget NumberGapWidget (Some w) ro) (Multiply a b) = True
   \<and> fillGap decimal
         (GapWidget NumberGapWidget (Some (NumberValueWidget (new_QLineEdit ''10''))) False)
         (Multiply (NumberValue 2) (NumberValue 3)) =
       Raises AssertionError (GapWidget NumberGapWidget None False) []"
  by (simp add: fillGap_def fillGap_built_def NumberOperatorWidget_init_def
        OPERATORS_keys_def OPERATORS_def except_KeyError_def isinstance_def)

section \<open>The list editors\<close>

lemma indexOf_from_first:
  "x \<notin> set before \<Longrightarrow> indexOf_from i (before @ x # after) x = i + int (length before)"
  by (induction before arbitrary: i) auto

lemma addAtEnd_at_gap:
  "GapItem \<notin> set before \<Longrightarrow>
   addAtEnd n (before @ GapItem # after) = before @ WidgetItem n # GapItem # after"
  by (simp add: addAtEnd_def indexOf_def indexOf_from_first insertWidget_def)

lemma first_raised_map_Inr: "first_raised (map Inr vs) = Inr vs"
  by (induction vs) auto

lemma first_raised_Inr_D: "first_raised rs = Inr vs \<Longrightarrow> rs = map Inr vs"
  by (induction rs arbitrary: vs) (auto split: sum.splits)

lemma first_raised_Inr:
  "first_raised rs = Inr vs \<longleftrightarrow> rs = map Inr vs"
  using first_raised_map_Inr first_raised_Inr_D by blast

lemma map_eq_map_Inr:
  "map f ws = map Inr vs \<longleftrightarrow> list_all2 (\<lambda>w v. f w = Inr v) ws vs"
proof (induction ws arbitrary: vs)
  case Nil
  then show ?case by auto
next
  case (Cons w ws)
  then show ?case by (cases vs) auto
qed

lemma model_sequence_Inr:
  "model_sequence float (CommandSequenceWidget ws g l) = Inr (CommandSequence vs) \<longleftrightarrow>
   list_all2 (\<lambda>w v. model float w = Inr v) ws vs"
proof -
  have "model_sequence float (CommandSequenceWidget ws g l) = Inr (CommandSequence vs) \<longleftrightarrow>
      first_raised (map (model float) ws) = Inr vs"
    by (cases "first_raised (map (model float) ws)") simp_all
  then show ?thesis
    by (simp only: first_raised_Inr map_eq_map_Inr)
qed

lemma model_ActWidget_Inr:
  "model float (ActWidget ws g l) = Inr (Act vs) \<longleftrightarrow>
   list_all2 (\<lambda>w v. model float w = Inr v) ws vs"
proof -
  have "model float (ActWidget ws g l) = Inr (Act vs) \<longleftrightarrow>
      first_raised (map (model float) ws) = Inr vs"
    by (cases "first_raised (map (model float) ws)") simp_all
  then show ?thesis
    by (simp only: first_raised_Inr map_eq_map_Inr)
qed

lemma upt_widget_items:
  "map WidgetItem [n..<Suc (n + m)] = WidgetItem n # map WidgetItem [Suc n..<Suc (n + m)]"
  by (simp add: upt_conv_Cons del: upt_Suc)

lemma addCommand_step:
  "addCommand text_of (CommandSequenceWidget ws g l) c =
     (case build text_of c of
        (Inl e, evs) \<Rightarrow> Raises e (CommandSequenceWidget ws g l) evs
      | (Inr w, evs) \<Rightarrow>
          Returns (CommandSequenceWidget (ws @ [w]) g (addAtEnd (length ws) l))
            (evs @ [ScriptChangeEvent
                      (Commands (CommandSequenceWidget (ws @ [w]) g (addAtEnd (length ws) l)))]))"
  by (simp add: addCommand_def postScriptChangeEvent_def Let_def split: prod.splits sum.splits)

lemma addScene_step:
  "addScene text_of (ActWidget ws g l) c =
     (case build text_of c of
        (Inl e, evs) \<Rightarrow> Raises e (ActWidget ws g l) evs
      | (Inr w, evs) \<Rightarrow>
          Returns (ActWidget (ws @ [w]) g (addAtEnd (length ws) l))
            (evs @ [ScriptChangeEvent
                      (Node (ActWidget (ws @ [w]) g (addAtEnd (length ws) l)))]))"
  by (simp add: addScene_def addScene_built_def postScriptChangeEvent_def Let_def
        split: prod.splits sum.splits)

lemma addCommands_state:
  "raised (for_each (addCommand text_of)
             (CommandSequenceWidget ws g (before @ GapItem # after)) cs) = None \<Longrightarrow>
   GapItem \<notin> set before \<Longrightarrow>
   state_of (for_each (addCommand text_of)
               (CommandSequenceWidget ws g (before @ GapItem # after)) cs) =
     CommandSequenceWidget (ws @ map (built text_of) cs) g
       (before @ map WidgetItem [length ws..<length ws + length cs] @ GapItem # after)
   \<and> length cs \<le> length (events_of (for_each (addCommand text_of)
               (CommandSequenceWidget ws g (before @ GapItem # after)) cs))
   \<and> (\<forall>c \<in> set cs. fst (build text_of c) = Inr (built text_of c))"
proof (induction cs arbitrary: ws before)
  case Nil
  then show ?case by simp
next
  case (Cons c cs)
  obtain r evs where b: "build text_of c = (r, evs)" by (cases "build text_of c")
  show ?case
  proof (cases r)
    case (Inl e)
    with b Cons.prems show ?thesis by (simp add: addCommand_step)
  next
    case (Inr w)
    let ?s = "CommandSequenceWidget (ws @ [w]) g
                ((before @ [WidgetItem (length ws)]) @ GapItem # after)"
    have step: "addCommand text_of (CommandSequenceWidget ws g (before @ GapItem # after)) c =
        Returns ?s (evs @ [ScriptChangeEvent (Commands ?s)])"
      using b Inr Cons.prems(2) by (simp add: addCommand_step addAtEnd_at_gap)
    have r: "raised (for_each (addCommand text_of) ?s cs) = None"
      using Cons.prems(1) step by (simp split: outcome.splits)
    have g: "GapItem \<notin> set (before @ [WidgetItem (length ws)])"
      using Cons.prems(2) by simp
    note IH = Cons.IH [OF r g]
    have w: "built text_of c = w" using b Inr by (simp add: built_def)
    obtain s2 evs2 where o: "for_each (addCommand text_of) ?s cs = Returns s2 evs2"
      using r by (cases "for_each (addCommand text_of) ?s cs") auto
    have whole: "for_each (addCommand text_of)
        (CommandSequenceWidget ws g (before @ GapItem # after)) (c # cs) =
        Returns s2 ((evs @ [ScriptChangeEvent (Commands ?s)]) @ evs2)"
      using step o by simp
    have s2: "s2 = CommandSequenceWidget ((ws @ [w]) @ map (built text_of) cs) g
       ((before @ [WidgetItem (length ws)]) @
        map WidgetItem [length (ws @ [w])..<length (ws @ [w]) + length cs] @ GapItem # after)"
      and n: "length cs \<le> length evs2"
      and bs: "\<forall>c \<in> set cs. fst (build text_of c) = Inr (built text_of c)"
      using IH o by simp_all
    have "state_of (for_each (addCommand text_of)
        (CommandSequenceWidget ws g (before @ GapItem # after)) (c # cs)) =
        CommandSequenceWidget (ws @ map (built text_of) (c # cs)) g
          (before @ map WidgetItem [length ws..<length ws + length (c # cs)] @ GapItem # after)"
      unfolding whole s2 using w by (simp add: upt_widget_items del: upt_Suc)
    moreover have "length (c # cs) \<le> length (events_of (for_each (addCommand text_of)
        (CommandSequenceWidget ws g (before @ GapItem # after)) (c # cs)))"
      unfolding whole using n by simp
    moreover have "\<forall>c' \<in> set (c # cs). fst (build text_of c') = Inr (built text_of c')"
      using bs b Inr w by simp
    ultimately show ?thesis by simp
  qed
qed

lemma addScenes_state:
  "raised (for_each (addScene text_of)
             (ActWidget ws g (before @ GapItem # after)) cs) = None \<Longrightarrow>
   GapItem \<notin> set before \<Longrightarrow>
   state_of (for_each (addScene text_of)
               (ActWidget ws g (before @ GapItem # after)) cs) =
     ActWidget (ws @ map (built text_of) cs) g
       (before @ map WidgetItem [length ws..<length ws + length cs] @ GapItem # after)
   \<and> length cs \<le> length (events_of (for_each (addScene text_of)
               (ActWidget ws g (before @ GapItem # after)) cs))
   \<and> (\<forall>c \<in> set cs. fst (build text_of c) = Inr (built text_of c))"
proof (induction cs arbitrary: ws before)
  case Nil
  then show ?case by simp
next
  case (Cons c cs)
  obtain r evs where b: "build text_of c = (r, evs)" by (cases "build text_of c")
  show ?case
  proof (cases r)
    case (Inl e)
    with b Cons.prems show ?thesis by (simp add: addScene_step)
  next
    case (Inr w)
    let ?s = "ActWidget (ws @ [w]) g
                ((before @ [WidgetItem (length ws)]) @ GapItem # after)"
    have step: "addScene text_of (ActWidget ws g (before @ GapItem # after)) c =
        Returns ?s (evs @ [ScriptChangeEvent (Node ?s)])"
      using b Inr Cons.prems(2) by (simp add: addScene_step addAtEnd_at_gap)
    have r: "raised (for_each (addScene text_of) ?s cs) = None"
      using Cons.prems(1) step by (simp split: outcome.splits)
    have g: "GapItem \<notin> set (before @ [WidgetItem (length ws)])"
      using Cons.prems(2) by simp
    note IH = Cons.IH [OF r g]
    have w: "built text_of c = w" using b Inr by (simp add: built_def)
    obtain s2 evs2 where o: "for_each (addScene text_of) ?s cs = Returns s2 evs2"
      using r by (cases "for_each (addScene text_of) ?s cs") auto
    have whole: "for_each (addScene text_of)
        (ActWidget ws g (before @ GapItem # after)) (c # cs) =
        Returns s2 ((evs @ [ScriptChangeEvent (Node ?s)]) @ evs2)"
      using step o by simp
    have s2: "s2 = ActWidget ((ws @ [w]) @ map (built text_of) cs) g
       ((before @ [WidgetItem (length ws)]) @
        map WidgetItem [length (ws @ [w])..<length (ws @ [w]) + length cs] @ GapItem # after)"
      and n: "length cs \<le> length evs2"
      and bs: "\<forall>c \<in> set cs. fst (build text_of c) = Inr (built text_of c)"
      using IH o by simp_all
    have "state_of (for_each (addScene text_of)
        (ActWidget ws g (before @ GapItem # after)) (c # cs)) =
        ActWidget (ws @ map (built text_of) (c # cs)) g
          (before @ map WidgetItem [length ws..<length ws + length (c # cs)] @ GapItem # after)"
      unfolding whole s2 using w by (simp add: upt_widget_items del: upt_Suc)
    moreover have "length (c # cs) \<le> length (events_of (for_each (addScene text_of)
        (ActWidget ws g (before @ GapItem # after)) (c # cs)))"
      unfolding whole using n by simp
    moreover have "\<forall>c' \<in> set (c # cs). fst (build text_of c') = Inr (built text_of c')"
      using bs b Inr w by simp
    ultimately show ?thesis by simp
  qed
qed

lemma for_each_Cons_Returns:
  "method self x = Returns s evs \<Longrightarrow>
   state_of (for_each method self (x # xs)) = state_of (for_each method s xs)
   \<and> events_of (for_each method self (x # xs)) = evs @ events_of (for_each method s xs)
   \<and> raised (for_each method self (x # xs)) = raised (for_each method s xs)"
  by (cases "for_each method s xs") simp_all

lemma for_each_Cons_Raises:
  "method self x = Raises e s evs \<Longrightarrow>
   for_each method self (x # xs) = Raises e s evs"
  by simp

lemma addCommands_any:
  "GapItem \<notin> set before \<Longrightarrow>
   state_of (for_each (addCommand text_of)
               (CommandSequenceWidget ws g (before @ GapItem # after)) cs) =
     CommandSequenceWidget (ws @ map (built text_of) (appended text_of cs)) g
       (before @ map WidgetItem [length ws..<length ws + length (appended text_of cs)]
          @ GapItem # after)
   \<and> length (appended text_of cs) \<le> length (events_of (for_each (addCommand text_of)
               (CommandSequenceWidget ws g (before @ GapItem # after)) cs))
   \<and> (raised (for_each (addCommand text_of)
               (CommandSequenceWidget ws g (before @ GapItem # after)) cs) = None)
      = (appended text_of cs = cs)"
proof (induction cs arbitrary: ws before)
  case Nil
  then show ?case by (simp add: appended_def)
next
  case (Cons c cs)
  obtain r evs where b: "build text_of c = (r, evs)" by (cases "build text_of c")
  show ?case
  proof (cases r)
    case (Inl e)
    have "addCommand text_of (CommandSequenceWidget ws g (before @ GapItem # after)) c =
        Raises e (CommandSequenceWidget ws g (before @ GapItem # after)) evs"
      using b Inl by (simp add: addCommand_step)
    from for_each_Cons_Raises [of "addCommand text_of" _ c, OF this] b Inl show ?thesis
      by (simp add: appended_def)
  next
    case (Inr w)
    let ?s = "CommandSequenceWidget (ws @ [w]) g
                ((before @ [WidgetItem (length ws)]) @ GapItem # after)"
    have step: "addCommand text_of (CommandSequenceWidget ws g (before @ GapItem # after)) c =
        Returns ?s (evs @ [ScriptChangeEvent (Commands ?s)])"
      using b Inr Cons.prems by (simp add: addCommand_step addAtEnd_at_gap)
    note fe = for_each_Cons_Returns [of "addCommand text_of" _ c _ _ cs, OF step]
    have g: "GapItem \<notin> set (before @ [WidgetItem (length ws)])"
      using Cons.prems by simp
    note IH = Cons.IH [OF g, of "ws @ [w]"]
    have w: "built text_of c = w" using b Inr by (simp add: built_def)
    have ap: "appended text_of (c # cs) = c # appended text_of cs"
      using b Inr by (simp add: appended_def)
    have "state_of (for_each (addCommand text_of)
        (CommandSequenceWidget ws g (before @ GapItem # after)) (c # cs)) =
        CommandSequenceWidget (ws @ map (built text_of) (appended text_of (c # cs))) g
          (before @ map WidgetItem
             [length ws..<length ws + length (appended text_of (c # cs))] @ GapItem # after)"
      using fe IH w unfolding ap by (simp add: upt_widget_items del: upt_Suc)
    moreover have "length (appended text_of (c # cs)) \<le>
        length (events_of (for_each (addCommand text_of)
          (CommandSequenceWidget ws g (before @ GapItem # after)) (c # cs)))"
      using fe IH unfolding ap by simp
    moreover have "(raised (for_each (addCommand text_of)
          (CommandSequenceWidget ws g (before @ GapItem # after)) (c # cs)) = None)
        = (appended text_of (c # cs) = c # cs)"
      using fe IH unfolding ap by simp
    ultimately show ?thesis by blast
  qed
qed

lemma addCommands_children:
  "CommandSequenceWidget_commands
     (state_of (for_each (addCommand text_of) (CommandSequenceWidget ws g l) cs)) =
   ws @ map (built text_of) (appended text_of cs)"
proof (induction cs arbitrary: ws l)
  case Nil
  then show ?case by (simp add: appended_def)
next
  case (Cons c cs)
  obtain r evs where b: "build text_of c = (r, evs)" by (cases "build text_of c")
  show ?case
  proof (cases r)
    case (Inl e)
    have "addCommand text_of (CommandSequenceWidget ws g l) c =
        Raises e (CommandSequenceWidget ws g l) evs"
      using b Inl by (simp add: addCommand_step)
    from for_each_Cons_Raises [of "addCommand text_of" _ c, OF this] b Inl show ?thesis
      by (simp add: appended_def)
  next
    case (Inr w)
    let ?s = "CommandSequenceWidget (ws @ [w]) g (addAtEnd (length ws) l)"
    have step: "addCommand text_of (CommandSequenceWidget ws g l) c =
        Returns ?s (evs @ [ScriptChangeEvent (Commands ?s)])"
      using b Inr by (simp add: addCommand_step)
    note fe = for_each_Cons_Returns [of "addCommand text_of" _ c _ _ cs, OF step]
    have w: "built text_of c = w" using b Inr by (simp add: built_def)
    have ap: "appended text_of (c # cs) = c # appended text_of cs"
      using b Inr by (simp add: appended_def)
    show ?thesis
      using fe Cons.IH [of "ws @ [w]" "addAtEnd (length ws) l"] w unfolding ap by simp
  qed
qed

lemma addScenes_any:
  "GapItem \<notin> set before \<Longrightarrow>
   state_of (for_each (addScene text_of)
               (ActWidget ws g (before @ GapItem # after)) cs) =
     ActWidget (ws @ map (built text_of) (appended text_of cs)) g
       (before @ map WidgetItem [length ws..<length ws + length (appended text_of cs)]
          @ GapItem # after)
   \<and> length (appended text_of cs) \<le> length (events_of (for_each (addScene text_of)
               (ActWidget ws g (before @ GapItem # after)) cs))
   \<and> (raised (for_each (addScene text_of)
               (ActWidget ws g (before @ GapItem # after)) cs) = None)
      = (appended text_of cs = cs)"
proof (induction cs arbitrary: ws before)
  case Nil
  then show ?case by (simp add: appended_def)
next
  case (Cons c cs)
  obtain r evs where b: "build text_of c = (r, evs)" by (cases "build text_of c")
  show ?case
  proof (cases r)
    case (Inl e)
    have "addScene text_of (ActWidget ws g (before @ GapItem # after)) c =
        Raises e (ActWidget ws g (before @ GapItem # after)) evs"
      using b Inl by (simp add: addScene_step)
    from for_each_Cons_Raises [of "addScene text_of" _ c, OF this] b Inl show ?thesis
      by (simp add: appended_def)
  next
    case (Inr w)
    let ?s = "ActWidget (ws @ [w]) g
                ((before @ [WidgetItem (length ws)]) @ GapItem # after)"
    have step: "addScene text_of (ActWidget ws g (before @ GapItem # after)) c =
        Returns ?s (evs @ [ScriptChangeEvent (Node ?s)])"
      using b Inr Cons.prems by (simp add: addScene_step addAtEnd_at_gap)
    note fe = for_each_Cons_Returns [of "addScene text_of" _ c _ _ cs, OF step]
    have g: "GapItem \<notin> set (before @ [WidgetItem (length ws)])"
      using Cons.prems by simp
    note IH = Cons.IH [OF g, of "ws @ [w]"]
    have w: "built text_of c = w" using b Inr by (simp add: built_def)
    have ap: "appended text_of (c # cs) = c # appended text_of cs"
      using b Inr by (simp add: appended_def)
    have "state_of (for_each (addScene text_of)
        (ActWidget ws g (before @ GapItem # after)) (c # cs)) =
        ActWidget (ws @ map (built text_of) (appended text_of (c # cs))) g
          (before @ map WidgetItem
             [length ws..<length ws + length (appended text_of (c # cs))] @ GapItem # after)"
      using fe IH w unfolding ap by (simp add: upt_widget_items del: upt_Suc)
    moreover have "length (appended text_of (c # cs)) \<le>
        length (events_of (for_each (addScene text_of)
          (ActWidget ws g (before @ GapItem # after)) (c # cs)))"
      using fe IH unfolding ap by simp
    moreover have "(raised (for_each (addScene text_of)
          (ActWidget ws g (before @ GapItem # after)) (c # cs)) = None)
        = (appended text_of (c # cs) = c # cs)"
      using fe IH unfolding ap by simp
    ultimately show ?thesis by blast
  qed
qed

lemma addScenes_children:
  "ActWidget_scenes
     (state_of (for_each (addScene text_of) (ActWidget ws g l) cs)) =
   ws @ map (built text_of) (appended text_of cs)"
proof (induction cs arbitrary: ws l)
  case Nil
  then show ?case by (simp add: appended_def ActWidget_scenes_def)
next
  case (Cons c cs)
  obtain r evs where b: "build text_of c = (r, evs)" by (cases "build text_of c")
  show ?case
  proof (cases r)
    case (Inl e)
    have "addScene text_of (ActWidget ws g l) c =
        Raises e (ActWidget ws g l) evs"
      using b Inl by (simp add: addScene_step)
    from for_each_Cons_Raises [of "addScene text_of" _ c, OF this] b Inl show ?thesis
      by (simp add: appended_def ActWidget_scenes_def)
  next
    case (Inr w)
    let ?s = "ActWidget (ws @ [w]) g (addAtEnd (length ws) l)"
    have step: "addScene text_of (ActWidget ws g l) c =
        Returns ?s (evs @ [ScriptChangeEvent (Node ?s)])"
      using b Inr by (simp add: addScene_step)
    note fe = for_each_Cons_Returns [of "addScene text_of" _ c _ _ cs, OF step]
    have w: "built text_of c = w" using b Inr by (simp add: built_def)
    have ap: "appended text_of (c # cs) = c # appended text_of cs"
      using b Inr by (simp add: appended_def)
    show ?thesis
      using fe Cons.IH [of "ws @ [w]" "addAtEnd (length ws) l"] w unfolding ap by simp
  qed
qed

text \<open>
  C6. Appending is \<^verbatim>\<open>addCommand\<close> on a command sequence editor and \<^verbatim>\<open>addScene\<close> on an
  act editor, and the editors have no other method that changes the list. When \<open>N\<close>
  appends in a row all return, the list of children is the list from before followed by
  the widgets built for the \<open>N\<close> components in their order, the layout has the new
  widgets in that order immediately before the gap, which keeps what followed it, and
  at least \<open>N\<close> events were posted. \<^verbatim>\<open>model()\<close> returns a sequence exactly when the model
  of every child returns, and the sequence is then those models in the order of the list.
  One append that returns has posted, last of all, an event to the editor as it is with
  the new child at the end. An append for which the factory raises leaves the editor as
  it was, and the appends after it in a row of appends are not made: whatever the
  components, the list of children is afterwards the list from before followed by the
  widgets built for the components whose append returned, in their order, so no child
  is removed and none changes its place.
\<close>

theorem C6_append_only:
  "(GapItem \<notin> set before
      \<and> raised (for_each (addCommand text_of)
                  (CommandSequenceWidget ws g (before @ GapItem # after)) cs) = None \<longrightarrow>
      state_of (for_each (addCommand text_of)
                  (CommandSequenceWidget ws g (before @ GapItem # after)) cs) =
        CommandSequenceWidget (ws @ map (built text_of) cs) g
          (before @ map WidgetItem [length ws..<length ws + length cs] @ GapItem # after)
      \<and> length cs \<le> length (events_of (for_each (addCommand text_of)
                  (CommandSequenceWidget ws g (before @ GapItem # after)) cs))
      \<and> (\<forall>c \<in> set cs. fst (build text_of c) = Inr (built text_of c)))
   \<and> (GapItem \<notin> set before
      \<and> raised (for_each (addScene text_of)
                  (ActWidget ws g' (before @ GapItem # after)) cs) = None \<longrightarrow>
      state_of (for_each (addScene text_of)
                  (ActWidget ws g' (before @ GapItem # after)) cs) =
        ActWidget (ws @ map (built text_of) cs) g'
          (before @ map WidgetItem [length ws..<length ws + length cs] @ GapItem # after)
      \<and> length cs \<le> length (events_of (for_each (addScene text_of)
                  (ActWidget ws g' (before @ GapItem # after)) cs))
      \<and> (\<forall>c \<in> set cs. fst (build text_of c) = Inr (built text_of c)))
   \<and> (model_sequence float (CommandSequenceWidget ws g l) = Inr (CommandSequence vs) \<longleftrightarrow>
        list_all2 (\<lambda>w v. model float w = Inr v) ws vs)
   \<and> (model float (ActWidget ws g' l) = Inr (Act vs) \<longleftrightarrow>
        list_all2 (\<lambda>w v. model float w = Inr v) ws vs)
   \<and> (addCommand text_of (CommandSequenceWidget ws g l) c = Returns self' evs \<longrightarrow>
        evs \<noteq> [] \<and> last evs = ScriptChangeEvent (Commands self')
        \<and> self' = CommandSequenceWidget (ws @ [built text_of c]) g (addAtEnd (length ws) l))
   \<and> (addScene text_of (ActWidget ws g' l) c = Returns self'' evs \<longrightarrow>
        evs \<noteq> [] \<and> last evs = ScriptChangeEvent (Node self'')
        \<and> self'' = ActWidget (ws @ [built text_of c]) g' (addAtEnd (length ws) l))
   \<and> addCommand text_of (CommandSequenceWidget ws g l) c =
       (case build text_of c of
          (Inl e, evs0) \<Rightarrow> Raises e (CommandSequenceWidget ws g l) evs0
        | (Inr w, evs0) \<Rightarrow>
            Returns (CommandSequenceWidget (ws @ [w]) g (addAtEnd (length ws) l))
              (evs0 @ [ScriptChangeEvent
                         (Commands (CommandSequenceWidget (ws @ [w]) g
                                      (addAtEnd (length ws) l)))]))
   \<and> addScene text_of (ActWidget ws g' l) c =
       (case build text_of c of
          (Inl e, evs0) \<Rightarrow> Raises e (ActWidget ws g' l) evs0
        | (Inr w, evs0) \<Rightarrow>
            Returns (ActWidget (ws @ [w]) g' (addAtEnd (length ws) l))
              (evs0 @ [ScriptChangeEvent
                         (Node (ActWidget (ws @ [w]) g' (addAtEnd (length ws) l)))]))
   \<and> CommandSequenceWidget_commands
         (state_of (for_each (addCommand text_of) (CommandSequenceWidget ws g l) cs)) =
       ws @ map (built text_of) (appended text_of cs)
   \<and> ActWidget_scenes
         (state_of (for_each (addScene text_of) (ActWidget ws g' l) cs)) =
       ws @ map (built text_of) (appended text_of cs)
   \<and> (GapItem \<notin> set before \<longrightarrow>
        state_of (for_each (addCommand text_of)
                    (CommandSequenceWidget ws g (before @ GapItem # after)) cs) =
          CommandSequenceWidget (ws @ map (built text_of) (appended text_of cs)) g
            (before @ map WidgetItem [length ws..<length ws + length (appended text_of cs)]
               @ GapItem # after)
        \<and> length (appended text_of cs) \<le> length (events_of (for_each (addCommand text_of)
                    (CommandSequenceWidget ws g (before @ GapItem # after)) cs))
        \<and> (raised (for_each (addCommand text_of)
                    (CommandSequenceWidget ws g (before @ GapItem # after)) cs) = None)
           = (appended text_of cs = cs))
   \<and> (GapItem \<notin> set before \<longrightarrow>
        state_of (for_each (addScene text_of)
                    (ActWidget ws g' (before @ GapItem # after)) cs) =
          ActWidget (ws @ map (built text_of) (appended text_of cs)) g'
            (before @ map WidgetItem [length ws..<length ws + length (appended text_of cs)]
               @ GapItem # after)
        \<and> length (appended text_of cs) \<le> length (events_of (for_each (addScene text_of)
                    (ActWidget ws g' (before @ GapItem # after)) cs))
        \<and> (raised (for_each (addScene text_of)
                    (ActWidget ws g' (before @ GapItem # after)) cs) = None)
           = (appended text_of cs = cs))"
proof (intro conjI impI)
  assume "GapItem \<notin> set before
      \<and> raised (for_each (addCommand text_of)
                  (CommandSequenceWidget ws g (before @ GapItem # after)) cs) = None"
  then show "state_of (for_each (addCommand text_of)
                  (CommandSequenceWidget ws g (before @ GapItem # after)) cs) =
        CommandSequenceWidget (ws @ map (built text_of) cs) g
          (before @ map WidgetItem [length ws..<length ws + length cs] @ GapItem # after)"
    and "length cs \<le> length (events_of (for_each (addCommand text_of)
                  (CommandSequenceWidget ws g (before @ GapItem # after)) cs))"
    and "\<forall>c \<in> set cs. fst (build text_of c) = Inr (built text_of c)"
    using addCommands_state [of text_of ws g before after cs] by blast+
next
  assume "GapItem \<notin> set before
      \<and> raised (for_each (addScene text_of)
                  (ActWidget ws g' (before @ GapItem # after)) cs) = None"
  then show "state_of (for_each (addScene text_of)
                  (ActWidget ws g' (before @ GapItem # after)) cs) =
        ActWidget (ws @ map (built text_of) cs) g'
          (before @ map WidgetItem [length ws..<length ws + length cs] @ GapItem # after)"
    and "length cs \<le> length (events_of (for_each (addScene text_of)
                  (ActWidget ws g' (before @ GapItem # after)) cs))"
    and "\<forall>c \<in> set cs. fst (build text_of c) = Inr (built text_of c)"
    using addScenes_state [of text_of ws g' before after cs] by blast+
next
  show "model_sequence float (CommandSequenceWidget ws g l) = Inr (CommandSequence vs) \<longleftrightarrow>
        list_all2 (\<lambda>w v. model float w = Inr v) ws vs"
    by (rule model_sequence_Inr)
  show "model float (ActWidget ws g' l) = Inr (Act vs) \<longleftrightarrow>
        list_all2 (\<lambda>w v. model float w = Inr v) ws vs"
    by (rule model_ActWidget_Inr)
next
  assume a: "addCommand text_of (CommandSequenceWidget ws g l) c = Returns self' evs"
  then show "evs \<noteq> []" and "last evs = ScriptChangeEvent (Commands self')"
    and "self' = CommandSequenceWidget (ws @ [built text_of c]) g (addAtEnd (length ws) l)"
    by (auto simp: addCommand_step built_def split: prod.splits sum.splits)
next
  assume a: "addScene text_of (ActWidget ws g' l) c = Returns self'' evs"
  then show "evs \<noteq> []" and "last evs = ScriptChangeEvent (Node self'')"
    and "self'' = ActWidget (ws @ [built text_of c]) g' (addAtEnd (length ws) l)"
    by (auto simp: addScene_step built_def split: prod.splits sum.splits)
next
  show "addCommand text_of (CommandSequenceWidget ws g l) c =
       (case build text_of c of
          (Inl e, evs0) \<Rightarrow> Raises e (CommandSequenceWidget ws g l) evs0
        | (Inr w, evs0) \<Rightarrow>
            Returns (CommandSequenceWidget (ws @ [w]) g (addAtEnd (length ws) l))
              (evs0 @ [ScriptChangeEvent
                         (Commands (CommandSequenceWidget (ws @ [w]) g
                                      (addAtEnd (length ws) l)))]))"
    by (rule addCommand_step)
  show "addScene text_of (ActWidget ws g' l) c =
       (case build text_of c of
          (Inl e, evs0) \<Rightarrow> Raises e (ActWidget ws g' l) evs0
        | (Inr w, evs0) \<Rightarrow>
            Returns (ActWidget (ws @ [w]) g' (addAtEnd (length ws) l))
              (evs0 @ [ScriptChangeEvent
                         (Node (ActWidget (ws @ [w]) g' (addAtEnd (length ws) l)))]))"
    by (rule addScene_step)
  show "CommandSequenceWidget_commands
         (state_of (for_each (addCommand text_of) (CommandSequenceWidget ws g l) cs)) =
       ws @ map (built text_of) (appended text_of cs)"
    by (rule addCommands_children)
  show "ActWidget_scenes
         (state_of (for_each (addScene text_of) (ActWidget ws g' l) cs)) =
       ws @ map (built text_of) (appended text_of cs)"
    by (rule addScenes_children)
next
  assume i: "GapItem \<notin> set before"
  note any = addCommands_any [OF i, of text_of ws g after cs]
  show "state_of (for_each (addCommand text_of)
                    (CommandSequenceWidget ws g (before @ GapItem # after)) cs) =
          CommandSequenceWidget (ws @ map (built text_of) (appended text_of cs)) g
            (before @ map WidgetItem [length ws..<length ws + length (appended text_of cs)]
               @ GapItem # after)"
    by (rule any [THEN conjunct1])
  show "length (appended text_of cs) \<le> length (events_of (for_each (addCommand text_of)
                    (CommandSequenceWidget ws g (before @ GapItem # after)) cs))"
    by (rule any [THEN conjunct2, THEN conjunct1])
  show "(raised (for_each (addCommand text_of)
                    (CommandSequenceWidget ws g (before @ GapItem # after)) cs) = None)
           = (appended text_of cs = cs)"
    by (rule any [THEN conjunct2, THEN conjunct2])
next
  assume i: "GapItem \<notin> set before"
  note any = addScenes_any [OF i, of text_of ws g' after cs]
  show "state_of (for_each (addScene text_of)
                    (ActWidget ws g' (before @ GapItem # after)) cs) =
          ActWidget (ws @ map (built text_of) (appended text_of cs)) g'
            (before @ map WidgetItem [length ws..<length ws + length (appended text_of cs)]
               @ GapItem # after)"
    by (rule any [THEN conjunct1])
  show "length (appended text_of cs) \<le> length (events_of (for_each (addScene text_of)
                    (ActWidget ws g' (before @ GapItem # after)) cs))"
    by (rule any [THEN conjunct2, THEN conjunct1])
  show "(raised (for_each (addScene text_of)
                    (ActWidget ws g' (before @ GapItem # after)) cs) = None)
           = (appended text_of cs = cs)"
    by (rule any [THEN conjunct2, THEN conjunct2])
qed

theorem C6_append_only_witness:
  "GapItem \<notin> set []
   \<and> raised (for_each (addCommand decimal)
               (CommandSequenceWidget [] (new_ListGapWidget CommandGapWidget) [GapItem])
               [SetVariableStatement ''item'' (NumberValue 1),
                SetVariableStatement ''curr_offset'' NumberGap,
                GetVariableExpression ''curr_video'']) = None
   \<and> state_of (for_each (addCommand decimal)
               (CommandSequenceWidget [] (new_ListGapWidget CommandGapWidget) [GapItem])
               [SetVariableStatement ''item'' (NumberValue 1),
                SetVariableStatement ''curr_offset'' NumberGap,
                GetVariableExpression ''curr_video'']) =
       CommandSequenceWidget
         (map (built decimal)
            [SetVariableStatement ''item'' (NumberValue 1),
             SetVariableStatement ''curr_offset'' NumberGap,
             GetVariableExpression ''curr_video''])
         (new_ListGapWidget CommandGapWidget)
         [WidgetItem 0, WidgetItem 1, WidgetItem 2, GapItem]
   \<and> model_sequence float_decimal
         (state_of (for_each (addCommand decimal)
               (CommandSequenceWidget [] (new_ListGapWidget CommandGapWidget) [GapItem])
               [SetVariableStatement ''item'' (NumberValue 1),
                SetVariableStatement ''curr_offset'' NumberGap,
                GetVariableExpression ''curr_video''])) =
       Inr (CommandSequence
              [SetVariableStatement ''item'' (NumberValue 1),
               SetVariableStatement ''curr_offset'' NumberGap,
               GetVariableExpression ''curr_video''])
   \<and> GapItem \<notin> set [SpacingItem]
   \<and> raised (for_each (addScene decimal)
               (ActWidget [] (new_ListGapWidget SceneGapWidget)
                  [SpacingItem, GapItem, StretchItem])
               [MiniTextSceneWidget_model,
                TextScene ''Second'' ''scene'' NumberGap
                  (CommandSequence [SetVariableStatement ''item'' (NumberValue 1)])
                  (CommandSequence []) (TextValue ''hello'')]) = None
   \<and> state_of (for_each (addScene decimal)
               (ActWidget [] (new_ListGapWidget SceneGapWidget)
                  [SpacingItem, GapItem, StretchItem])
               [MiniTextSceneWidget_model,
                TextScene ''Second'' ''scene'' NumberGap
                  (CommandSequence [SetVariableStatement ''item'' (NumberValue 1)])
                  (CommandSequence []) (TextValue ''hello'')]) =
       ActWidget
         (map (built decimal)
            [MiniTextSceneWidget_model,
             TextScene ''Second'' ''scene'' NumberGap
               (CommandSequence [SetVariableStatement ''item'' (NumberValue 1)])
               (CommandSequence []) (TextValue ''hello'')])
         (new_ListGapWidget SceneGapWidget)
         [SpacingItem, WidgetItem 0, WidgetItem 1, GapItem, StretchItem]
   \<and> model float_decimal
         (state_of (for_each (addScene decimal)
               (ActWidget [] (new_ListGapWidget SceneGapWidget)
                  [SpacingItem, GapItem, StretchItem])
               [MiniTextSceneWidget_model,
                TextScene ''Second'' ''scene'' NumberGap
                  (CommandSequence [SetVariableStatement ''item'' (NumberValue 1)])
                  (CommandSequence []) (TextValue ''hello'')])) =
       Inr (Act [MiniTextSceneWidget_model,
                 TextScene ''Second'' ''scene'' NumberGap
                   (CommandSequence [SetVariableStatement ''item'' (NumberValue 1)])
                   (CommandSequence []) (TextValue ''hello'')])
   \<and> raised (for_each (addCommand decimal)
               (CommandSequenceWidget [] (new_ListGapWidget CommandGapWidget) [GapItem])
               [SetVariableStatement ''item'' (NumberValue 1),
                SetVariableStatement ''item'' (Multiply NumberGap NumberGap),
                GetVariableExpression ''curr_video'']) = Some AssertionError
   \<and> CommandSequenceWidget_commands
         (state_of (for_each (addCommand decimal)
               (CommandSequenceWidget [] (new_ListGapWidget CommandGapWidget) [GapItem])
               [SetVariableStatement ''item'' (NumberValue 1),
                SetVariableStatement ''item'' (Multiply NumberGap NumberGap),
                GetVariableExpression ''curr_video''])) =
       [built decimal (SetVariableStatement ''item'' (NumberValue 1))]"
proof -
  let ?cs = "[SetVariableStatement ''item'' (NumberValue (1::int)),
              SetVariableStatement ''curr_offset'' NumberGap,
              GetVariableExpression ''curr_video'']"
  let ?g = "new_ListGapWidget CommandGapWidget"
  have r: "raised (for_each (addCommand decimal) (CommandSequenceWidget [] ?g [GapItem]) ?cs) =
      None"
    by code_simp
  have m: "model_sequence float_decimal
      (state_of (for_each (addCommand decimal) (CommandSequenceWidget [] ?g [GapItem]) ?cs)) =
      Inr (CommandSequence ?cs)"
    by code_simp
  have h: "GapItem \<notin> set []
      \<and> raised (for_each (addCommand decimal)
                  (CommandSequenceWidget [] ?g ([] @ GapItem # [])) ?cs) = None"
  proof (rule conjI)
    show "GapItem \<notin> set []" by simp
    show "raised (for_each (addCommand decimal)
                  (CommandSequenceWidget [] ?g ([] @ GapItem # [])) ?cs) = None"
      unfolding append_Nil by (rule r)
  qed
  note s = C6_append_only [of "[]" decimal "[]" ?g "[]" ?cs,
      THEN conjunct1, THEN mp, OF h, THEN conjunct1]
  have u: "map WidgetItem [length ([]::widget list)..<length ([]::widget list) + length ?cs] =
      [WidgetItem 0, WidgetItem 1, WidgetItem 2]"
    by (simp add: upt_rec)
  have s': "state_of (for_each (addCommand decimal) (CommandSequenceWidget [] ?g [GapItem]) ?cs) =
      CommandSequenceWidget (map (built decimal) ?cs) ?g
        [WidgetItem 0, WidgetItem 1, WidgetItem 2, GapItem]"
    using s unfolding u append_Nil append_Cons by this
  let ?ss = "[MiniTextSceneWidget_model,
              TextScene ''Second'' ''scene'' NumberGap
                (CommandSequence [SetVariableStatement ''item'' (NumberValue 1)])
                (CommandSequence []) (TextValue ''hello'')]"
  let ?g' = "new_ListGapWidget SceneGapWidget"
  have ra: "raised (for_each (addScene decimal)
      (ActWidget [] ?g' [SpacingItem, GapItem, StretchItem]) ?ss) = None"
    by code_simp
  have ma: "model float_decimal (state_of (for_each (addScene decimal)
      (ActWidget [] ?g' [SpacingItem, GapItem, StretchItem]) ?ss)) = Inr (Act ?ss)"
    by code_simp
  have ha: "GapItem \<notin> set [SpacingItem]
      \<and> raised (for_each (addScene decimal)
                  (ActWidget [] ?g' ([SpacingItem] @ GapItem # [StretchItem])) ?ss) = None"
  proof (rule conjI)
    show "GapItem \<notin> set [SpacingItem]" by simp
    show "raised (for_each (addScene decimal)
                  (ActWidget [] ?g' ([SpacingItem] @ GapItem # [StretchItem])) ?ss) = None"
      unfolding append_Cons append_Nil by (rule ra)
  qed
  note sa = C6_append_only [of "[SpacingItem]" decimal "[]" _ "[StretchItem]" ?ss ?g',
      THEN conjunct2, THEN conjunct1, THEN mp, OF ha, THEN conjunct1]
  have ua: "map WidgetItem [length ([]::widget list)..<length ([]::widget list) + length ?ss] =
      [WidgetItem 0, WidgetItem 1]"
    by (simp add: upt_rec)
  have sa': "state_of (for_each (addScene decimal)
      (ActWidget [] ?g' [SpacingItem, GapItem, StretchItem]) ?ss) =
      ActWidget (map (built decimal) ?ss) ?g'
        [SpacingItem, WidgetItem 0, WidgetItem 1, GapItem, StretchItem]"
    using sa unfolding ua append_Nil append_Cons by this
  let ?cf = "[SetVariableStatement ''item'' (NumberValue (1::int)),
              SetVariableStatement ''item'' (Multiply NumberGap NumberGap),
              GetVariableExpression ''curr_video'']"
  have rf: "raised (for_each (addCommand decimal) (CommandSequenceWidget [] ?g [GapItem]) ?cf) =
      Some AssertionError"
    by code_simp
  have af: "appended decimal ?cf = [SetVariableStatement ''item'' (NumberValue (1::int))]"
    by code_simp
  note cf = C6_append_only [of _ decimal "[]" ?g _ ?cf _ _ "[GapItem]",
      THEN conjunct2, THEN conjunct2, THEN conjunct2, THEN conjunct2,
      THEN conjunct2, THEN conjunct2, THEN conjunct2, THEN conjunct2, THEN conjunct1]
  have cf': "CommandSequenceWidget_commands
      (state_of (for_each (addCommand decimal) (CommandSequenceWidget [] ?g [GapItem]) ?cf)) =
      [built decimal (SetVariableStatement ''item'' (NumberValue 1))]"
    using cf unfolding af append_Nil list.map by this
  show ?thesis
    by (intro conjI)
       (simp, rule r, rule s', rule m, simp, rule ra, rule sa', rule ma, rule rf, rule cf')
qed

section \<open>Emptying a slot\<close>

text \<open>
  C7. \<^verbatim>\<open>emptyGap\<close> on a slot that is not full raises the \<^verbatim>\<open>RuntimeError\<close> of a gap that
  is not occupied, leaves the slot as it was and posts no event. On a full slot it
  returns, the slot is not full afterwards, and the one event it posts is posted to
  the slot when the occupant is gone.
\<close>

theorem C7_emptyGap:
  "emptyGap (GapWidget k None ro) =
     Raises (RuntimeError ''Gap is currently not occupied.'') (GapWidget k None ro) []
   \<and> emptyGap (GapWidget k (Some w) ro) =
       Returns (GapWidget k None ro) [ScriptChangeEvent (Slot (GapWidget k None ro))]
   \<and> isFull (GapWidget k (Some w) ro) = True
   \<and> isFull (GapWidget k None ro) = False"
  by (simp add: emptyGap_def postScriptChangeEvent_def Let_def)

section \<open>What a slot accepts\<close>

text \<open>
  C8. For each of the four slot flavors and every component, \<^verbatim>\<open>isAcceptable\<close> is true
  exactly when the category of the component is the category the flavor accepts; the
  gap sentinel of that category is accepted. The result is a truth value and nothing
  else: the slot is not changed.
\<close>

theorem C8_isAcceptable:
  "isAcceptable (GapWidget k child ro) component =
     (category_of component = Some (accepted_category k))
   \<and> isAcceptable (GapWidget k child ro) (gap_sentinel k :: 'n lc) = True"
  by (cases k) (simp_all add: isinstance_def)

section \<open>The offset of a video scene\<close>

text \<open>
  C9. The accessor \<^verbatim>\<open>offset()\<close> of a video scene widget reads the duration slot. The
  model of the widget is the same whatever the offset slot holds, and when
  \<^verbatim>\<open>model()\<close> returns, it returns a video scene whose duration and offset are both the
  model of the duration slot.
\<close>

theorem C9_offset_is_duration:
  "offset float (VideoSceneWidget cm pre post src dur off) = model_gap float dur
   \<and> model float (VideoSceneWidget cm pre post src dur off) =
       model float (VideoSceneWidget cm pre post src dur off')
   \<and> (model float (VideoSceneWidget cm pre post src dur off) = Inr r \<longrightarrow>
        (\<exists>d p q s. model_gap float dur = Inr d
           \<and> r = VideoScene (title cm) (comment cm) d p q d s))"
  by (auto simp: offset_def split: sum.splits)

theorem C9_offset_is_duration_witness:
  "model float_decimal
     (VideoSceneWidget ''t''
        (CommandSequenceWidget [] (new_ListGapWidget CommandGapWidget) [GapItem])
        (CommandSequenceWidget [] (new_ListGapWidget CommandGapWidget) [GapItem])
        (GapWidget VideoGapWidget None False)
        (GapWidget NumberGapWidget (Some (NumberValueWidget (new_QLineEdit ''10''))) False)
        (GapWidget NumberGapWidget (Some (NumberValueWidget (new_QLineEdit ''0''))) False)) =
     Inr (VideoScene ''t'' [] (NumberValue 10) (CommandSequence []) (CommandSequence [])
            (NumberValue 10) VideoGap)
   \<and> (\<exists>d p q s.
         model_gap float_decimal
           (GapWidget NumberGapWidget (Some (NumberValueWidget (new_QLineEdit ''10''))) False) =
           Inr d
         \<and> VideoScene ''t'' [] (NumberValue 10) (CommandSequence []) (CommandSequence [])
             (NumberValue 10) VideoGap =
           VideoScene (title ''t'') (comment ''t'') d p q d s)"
proof -
  have m: "model float_decimal
     (VideoSceneWidget ''t''
        (CommandSequenceWidget [] (new_ListGapWidget CommandGapWidget) [GapItem])
        (CommandSequenceWidget [] (new_ListGapWidget CommandGapWidget) [GapItem])
        (GapWidget VideoGapWidget None False)
        (GapWidget NumberGapWidget (Some (NumberValueWidget (new_QLineEdit ''10''))) False)
        (GapWidget NumberGapWidget (Some (NumberValueWidget (new_QLineEdit ''0''))) False)) =
     Inr (VideoScene ''t'' [] (NumberValue 10) (CommandSequence []) (CommandSequence [])
            (NumberValue 10) VideoGap)"
    by code_simp
  from C9_offset_is_duration [of float_decimal "''t''"
        "CommandSequenceWidget [] (new_ListGapWidget CommandGapWidget) [GapItem]"
        "CommandSequenceWidget [] (new_ListGapWidget CommandGapWidget) [GapItem]"
        "GapWidget VideoGapWidget None False"
        "GapWidget NumberGapWidget (Some (NumberValueWidget (new_QLineEdit ''10''))) False"
        "GapWidget NumberGapWidget (Some (NumberValueWidget (new_QLineEdit ''0''))) False"]
    m
  show ?thesis by blast
qed

section \<open>Multiplication\<close>

text \<open>
  C10. The factory raises \<^verbatim>\<open>AssertionError\<close> for every \<^verbatim>\<open>Multiply\<close> node, before
  anything is built or posted: its builder passes the operator \<open>*\<close>, and the keys of
  \<^verbatim>\<open>OPERATORS\<close> are \<open>+\<close>, \<open>-\<close> and \<open>/\<close>. The model of an operator widget whose selector
  shows \<open>*\<close> raises \<^verbatim>\<open>KeyError\<close>.
\<close>

theorem C10_multiply:
  "build text_of (Multiply op1 op2) = (Inl AssertionError, [])
   \<and> OPERATORS_keys = [''+'', ''-'', ''/'']
   \<and> (currentText operator = ''*'' \<longrightarrow>
        model float (NumberOperatorWidget operand1 operator operand2) = Inl (KeyError ''*''))"
  by (simp add: NumberOperatorWidget_init_def OPERATORS_keys_def OPERATORS_def
        except_KeyError_def)

theorem C10_multiply_witness:
  "currentText \<lparr>items = [''+'', ''-'', ''*''], currentIndex = 2\<rparr> = ''*''
   \<and> model float_decimal
         (NumberOperatorWidget (GapWidget NumberGapWidget None False)
            \<lparr>items = [''+'', ''-'', ''*''], currentIndex = 2\<rparr>
            (GapWidget NumberGapWidget None False)) =
       Inl (KeyError ''*'')"
proof -
  have c: "currentText \<lparr>items = [''+'', ''-'', ''*''], currentIndex = 2\<rparr> = ''*''"
    by (simp add: currentText_def)
  from C10_multiply [of _ _ _ "\<lparr>items = [''+'', ''-'', ''*''], currentIndex = 2\<rparr>"
        float_decimal "GapWidget NumberGapWidget None False"
        "GapWidget NumberGapWidget None False"] c
  show ?thesis by blast
qed

end
